theory Spec2Isabelle
  imports Complex_Main "HOL-Library.Sublist" "HOL-Library.Multiset"
begin

section \<open>Data model\<close>

text \<open>
  The notebook \<^verbatim>\<open>qboost_demo.ipynb\<close> works on three kinds of data: a feature matrix
  (rows are samples, columns are numeric features), a label vector, and opaque objects
  of the libraries it calls (samplers, transformers, classifiers). Array entries are
  numbers; numpy's element types are not modelled, a feature is a rational and a label
  is an integer. Python objects of the libraries are values of one type \<open>'o\<close>, as
  Python is dynamically typed; a method that mutates its receiver returns the new
  object.
\<close>

type_synonym matrix = "rat list list"
type_synonym labels = "int list"
type_synonym image = "rat list list"

datatype error =
    NetworkFailure
  | AuthenticationFailure
  | MalformedData
  | AttributeError
  | IndexError
  | ValueError

section \<open>The experiments' data preparation (cells 14 and 21)\<close>

text \<open>
  numpy indexing with an index array on the first axis, \<^verbatim>\<open>a[idx]\<close>: one row per
  index, IndexError when an index is out of range. The index arrays of the notebook
  come from \<^verbatim>\<open>np.where\<close> and \<^verbatim>\<open>np.arange\<close> and are never negative.
\<close>

definition take_rows :: "'a list \<Rightarrow> nat list \<Rightarrow> error + 'a list" where
  "take_rows a idx =
     (if list_all (\<lambda>i. i < length a) idx then Inr (map (\<lambda>i. a ! i) idx)
      else Inl IndexError)"

text \<open>
  \<^verbatim>\<open>np.where(x <= 9)[0]\<close> on a three-dimensional array of images: the first-axis
  index of every entry that is at most 9, in row-major order, so the index of an
  image occurs once for each of its entries that is at most 9.
\<close>

definition where_le_9 :: "image list \<Rightarrow> nat list" where
  "where_le_9 x =
     concat (map (\<lambda>i. replicate (length (filter (\<lambda>p. p \<le> 9) (concat (x ! i)))) i)
                 [0..<length x])"

text \<open>
  \<^verbatim>\<open>X.reshape(r, c)\<close>: the entries in row-major order, cut into \<open>r\<close> rows of \<open>c\<close>
  entries; ValueError when the number of entries is not \<open>r * c\<close>.
\<close>

definition reshape :: "image list \<Rightarrow> nat \<Rightarrow> nat \<Rightarrow> error + matrix" where
  "reshape X r c =
     (let flat = concat (map concat X)
      in if length flat = r * c
         then Inr (map (\<lambda>i. take c (drop (i * c) flat)) [0..<r])
         else Inl ValueError)"

text \<open>
  \<^verbatim>\<open>2*(y > 4) - 1\<close> on an array of digits and \<^verbatim>\<open>2 * target - 1\<close> on an array of
  targets, entry by entry.
\<close>

definition digit_to_spin :: "int \<Rightarrow> int" where
  "digit_to_spin d = 2 * (if d > 4 then 1 else 0) - 1"

definition binary_to_spin :: "int \<Rightarrow> int" where
  "binary_to_spin t = 2 * t - 1"

text \<open>
  Cell 14. \<^verbatim>\<open>np.random.shuffle\<close> permutes an array with the state of the random
  generator: it is the parameter \<open>shuffle\<close>, which takes the generator's state \<open>g\<close> and
  returns the new one. The arrays \<open>x_train, y_train, x_test, y_test\<close> are what
  \<^verbatim>\<open>mnist.load_data()\<close> returned in cell 13. The cell ends with two prints of the
  shapes, which are left out. Cell 18 passes the four results to \<open>train_model\<close> with
  \<open>lmd = 1.0\<close>.
\<close>

definition cell_14 ::
  "('g \<Rightarrow> nat list \<Rightarrow> nat list \<times> 'g) \<Rightarrow> 'g \<Rightarrow> image list \<Rightarrow> labels \<Rightarrow> image list \<Rightarrow> labels
   \<Rightarrow> error + (matrix \<times> labels \<times> matrix \<times> labels)" where
  "cell_14 shuffle g x_train y_train x_test y_test =
     (let idx_01 = where_le_9 x_train;
          idx_02 = where_le_9 x_test;
          (idx_01, g) = shuffle g idx_01;
          (idx_02, g) = shuffle g idx_02;
          idx_01 = take 15000 idx_01;
          idx_02 = take 15000 idx_02
      in (case take_rows x_train idx_01 of Inl e \<Rightarrow> Inl e | Inr X_train \<Rightarrow>
         (case take_rows x_test idx_02 of Inl e \<Rightarrow> Inl e | Inr X_test \<Rightarrow>
         (case take_rows y_train idx_01 of Inl e \<Rightarrow> Inl e | Inr y_train_sel \<Rightarrow>
         (case take_rows y_test idx_02 of Inl e \<Rightarrow> Inl e | Inr y_test_sel \<Rightarrow>
         (case reshape X_train 15000 784 of Inl e \<Rightarrow> Inl e | Inr X_train \<Rightarrow>
         (case reshape X_test 15000 784 of Inl e \<Rightarrow> Inl e | Inr X_test \<Rightarrow>
         Inr (X_train, map digit_to_spin y_train_sel,
              X_test, map digit_to_spin y_test_sel))))))))"

text \<open>
  Cell 21. \<open>data\<close> and \<open>target\<close> are the fields of what \<^verbatim>\<open>load_breast_cancer()\<close>
  returned. Cell 24 passes the four results to \<open>train_model\<close> with \<open>lmd = 1.0\<close>.
\<close>

definition cell_21 ::
  "('g \<Rightarrow> nat list \<Rightarrow> nat list \<times> 'g) \<Rightarrow> 'g \<Rightarrow> matrix \<Rightarrow> labels
   \<Rightarrow> error + (matrix \<times> labels \<times> matrix \<times> labels)" where
  "cell_21 shuffle g data target =
     (let idx = [0..<length target];
          (idx, g) = shuffle g idx;
          idx_train = take (2 * length idx div 3) idx;
          idx_test = drop (2 * length idx div 3) idx
      in (case take_rows data idx_train of Inl e \<Rightarrow> Inl e | Inr X_train \<Rightarrow>
         (case take_rows data idx_test of Inl e \<Rightarrow> Inl e | Inr X_test \<Rightarrow>
         (case take_rows target idx_train of Inl e \<Rightarrow> Inl e | Inr t_train \<Rightarrow>
         (case take_rows target idx_test of Inl e \<Rightarrow> Inl e | Inr t_test \<Rightarrow>
         Inr (X_train, map binary_to_spin t_train,
              X_test, map binary_to_spin t_test))))))"

text \<open>
  What the experiments assume of their environment: the shuffle returns a permutation
  of its argument, and the MNIST arrays hold images of 28 by 28 entries.
\<close>

definition permutes_input :: "('g \<Rightarrow> nat list \<Rightarrow> nat list \<times> 'g) \<Rightarrow> bool" where
  "permutes_input shuffle = (\<forall>g xs. mset (fst (shuffle g xs)) = mset xs)"

definition mnist_images :: "image list \<Rightarrow> bool" where
  "mnist_images x = list_all (\<lambda>img. length (concat img) = 784) x"

text \<open>Inputs on which the cells are run in the examples below.\<close>

definition keep_order :: "unit \<Rightarrow> nat list \<Rightarrow> nat list \<times> unit" where
  "keep_order g xs = (xs, g)"

definition one_dark_image :: image where
  "one_dark_image = (0 # replicate 27 10) # replicate 27 (replicate 28 10)"

section \<open>The libraries the notebook calls\<close>

text \<open>
  scikit-learn, the D-Wave SDK and the \<^verbatim>\<open>qboost\<close> package are not part of the
  notebook. Every function, constructor, method and attribute of theirs that the
  notebook uses is a field of the record \<open>library\<close>, a parameter of the model: a
  function of the call's arguments (for a method, of the receiver too) that returns
  either the error it raises or its value. A method that changes its receiver
  (\<^verbatim>\<open>fit\<close>, \<^verbatim>\<open>fit_transform\<close>) returns the changed object.
  \<^verbatim>\<open>fit\<close> takes the sampler, \<open>lmd\<close> and the sampling parameters as an optional
  argument: the notebook calls \<^verbatim>\<open>clf.fit(X, y)\<close> on three classifiers and
  \<^verbatim>\<open>clf.fit(X, y, emb_sampler, lmd=lmd, **DW_PARAMS)\<close> on two. Arguments passed by
  keyword are in the order \<open>n_estimators\<close>, \<open>max_depth\<close>.
\<close>

record dw_params =
  num_reads :: nat
  auto_scale :: bool
  num_spin_reversal_transforms :: nat
  postprocess :: string

record 'o library =
  DWaveSampler :: "string \<Rightarrow> string \<Rightarrow> error + 'o"
  EmbeddingComposite :: "'o \<Rightarrow> error + 'o"
  Imputer :: "error + 'o"
  StandardScaler :: "error + 'o"
  Normalizer :: "error + 'o"
  fit_transform :: "'o \<Rightarrow> matrix \<Rightarrow> error + 'o \<times> matrix"
  AdaBoostClassifier :: "nat \<Rightarrow> error + 'o"
  WeakClassifiers :: "nat \<Rightarrow> nat \<Rightarrow> error + 'o"
  RandomForestClassifier :: "nat \<Rightarrow> nat \<Rightarrow> error + 'o"
  QBoostClassifier :: "nat \<Rightarrow> nat \<Rightarrow> error + 'o"
  QboostPlus :: "'o list \<Rightarrow> error + 'o"
  fit :: "'o \<Rightarrow> matrix \<Rightarrow> labels \<Rightarrow> ('o \<times> rat \<times> dw_params) option \<Rightarrow> error + 'o"
  predict :: "'o \<Rightarrow> matrix \<Rightarrow> error + labels"
  estimator_weights :: "'o \<Rightarrow> error + 'o"
  accuracy_score :: "labels \<Rightarrow> labels \<Rightarrow> error + rat"

section \<open>Runs: what a function does besides returning\<close>

text \<open>
  A run of a notebook function is the list of the calls it makes to the libraries and
  to \<^verbatim>\<open>print\<close>, in order, each with the error it raised if it raised one, and then
  either an error (the exception that leaves the function) or the returned value.
  \<open>bnd\<close> is sequencing of statements: when the first part raises, the rest is not run.
\<close>

datatype 'o pyval = Str string | Num nat | Flt rat | Obj 'o

datatype 'o printed =
    Items "'o pyval list"
  | Fmt string "'o pyval list"

datatype 'o call =
    C_DWaveSampler string string
  | C_EmbeddingComposite 'o
  | C_Imputer
  | C_StandardScaler
  | C_Normalizer
  | C_fit_transform 'o matrix
  | C_AdaBoostClassifier nat
  | C_WeakClassifiers nat nat
  | C_RandomForestClassifier nat nat
  | C_QBoostClassifier nat nat
  | C_QboostPlus "'o list"
  | C_fit 'o matrix labels "('o \<times> rat \<times> dw_params) option"
  | C_predict 'o matrix
  | C_estimator_weights 'o
  | C_accuracy_score labels labels
  | C_print "'o printed"

datatype 'o event = Event (called: "'o call") (raised: "error option")

type_synonym ('o, 'a) run = "'o event list \<times> (error + 'a)"

definition ret :: "'a \<Rightarrow> ('o, 'a) run" where
  "ret x = ([], Inr x)"

definition bnd :: "('o, 'a) run \<Rightarrow> ('a \<Rightarrow> ('o, 'b) run) \<Rightarrow> ('o, 'b) run" where
  "bnd m f =
     (case m of
        (evs, Inl e) \<Rightarrow> (evs, Inl e)
      | (evs, Inr a) \<Rightarrow> (case f a of (evs', r) \<Rightarrow> (evs @ evs', r)))"

definition lib_call :: "'o call \<Rightarrow> error + 'a \<Rightarrow> ('o, 'a) run" where
  "lib_call c r = ([Event c (case r of Inl e \<Rightarrow> Some e | Inr _ \<Rightarrow> None)], r)"

definition print :: "'o printed \<Rightarrow> ('o, unit) run" where
  "print p = ([Event (C_print p) None], Inr ())"

definition call_DWaveSampler :: "'o library \<Rightarrow> string \<Rightarrow> string \<Rightarrow> ('o, 'o) run" where
  "call_DWaveSampler lib token endpoint =
     lib_call (C_DWaveSampler token endpoint) (DWaveSampler lib token endpoint)"

definition call_EmbeddingComposite :: "'o library \<Rightarrow> 'o \<Rightarrow> ('o, 'o) run" where
  "call_EmbeddingComposite lib sampler =
     lib_call (C_EmbeddingComposite sampler) (EmbeddingComposite lib sampler)"

definition call_Imputer :: "'o library \<Rightarrow> ('o, 'o) run" where
  "call_Imputer lib = lib_call C_Imputer (Imputer lib)"

definition call_StandardScaler :: "'o library \<Rightarrow> ('o, 'o) run" where
  "call_StandardScaler lib = lib_call C_StandardScaler (StandardScaler lib)"

definition call_Normalizer :: "'o library \<Rightarrow> ('o, 'o) run" where
  "call_Normalizer lib = lib_call C_Normalizer (Normalizer lib)"

definition call_fit_transform :: "'o library \<Rightarrow> 'o \<Rightarrow> matrix \<Rightarrow> ('o, 'o \<times> matrix) run" where
  "call_fit_transform lib t X = lib_call (C_fit_transform t X) (fit_transform lib t X)"

definition call_AdaBoostClassifier :: "'o library \<Rightarrow> nat \<Rightarrow> ('o, 'o) run" where
  "call_AdaBoostClassifier lib n_estimators =
     lib_call (C_AdaBoostClassifier n_estimators) (AdaBoostClassifier lib n_estimators)"

definition call_WeakClassifiers :: "'o library \<Rightarrow> nat \<Rightarrow> nat \<Rightarrow> ('o, 'o) run" where
  "call_WeakClassifiers lib n_estimators max_depth =
     lib_call (C_WeakClassifiers n_estimators max_depth)
       (WeakClassifiers lib n_estimators max_depth)"

definition call_RandomForestClassifier :: "'o library \<Rightarrow> nat \<Rightarrow> nat \<Rightarrow> ('o, 'o) run" where
  "call_RandomForestClassifier lib n_estimators max_depth =
     lib_call (C_RandomForestClassifier n_estimators max_depth)
       (RandomForestClassifier lib n_estimators max_depth)"

definition call_QBoostClassifier :: "'o library \<Rightarrow> nat \<Rightarrow> nat \<Rightarrow> ('o, 'o) run" where
  "call_QBoostClassifier lib n_estimators max_depth =
     lib_call (C_QBoostClassifier n_estimators max_depth)
       (QBoostClassifier lib n_estimators max_depth)"

definition call_QboostPlus :: "'o library \<Rightarrow> 'o list \<Rightarrow> ('o, 'o) run" where
  "call_QboostPlus lib clfs = lib_call (C_QboostPlus clfs) (QboostPlus lib clfs)"

definition call_fit ::
  "'o library \<Rightarrow> 'o \<Rightarrow> matrix \<Rightarrow> labels \<Rightarrow> ('o \<times> rat \<times> dw_params) option \<Rightarrow> ('o, 'o) run" where
  "call_fit lib clf X y sampling = lib_call (C_fit clf X y sampling) (fit lib clf X y sampling)"

definition call_predict :: "'o library \<Rightarrow> 'o \<Rightarrow> matrix \<Rightarrow> ('o, labels) run" where
  "call_predict lib clf X = lib_call (C_predict clf X) (predict lib clf X)"

definition call_estimator_weights :: "'o library \<Rightarrow> 'o \<Rightarrow> ('o, 'o) run" where
  "call_estimator_weights lib clf =
     lib_call (C_estimator_weights clf) (estimator_weights lib clf)"

section \<open>The notebook's constants and functions (cells 4, 8 and 9)\<close>

definition sapi_token :: string where
  "sapi_token = ''CDL8-df1de1d5d76560ee73a82ffca3833a1a444536d3''"

definition url :: string where
  "url = ''https://cloud.dwavesys.com/sapi''"

definition metric :: "'o library \<Rightarrow> labels \<Rightarrow> labels \<Rightarrow> ('o, rat) run" where
  "metric lib y y_pred = lib_call (C_accuracy_score y y_pred) (accuracy_score lib y y_pred)"

definition nl :: string where
  "nl = [CHR 0x0A]"

definition tab :: string where
  "tab = [CHR 0x09]"

definition rule_line :: string where
  "rule_line = replicate 75 (CHR ''='')"

definition table_row :: "string \<Rightarrow> string" where
  "table_row name =
     name @ tab @ '' %5.2f '' @ tab @ tab @ '' %5.2f '' @ tab @ tab @ '' %5.2f '' @ tab @ tab
       @ '' %5.2f '' @ tab @ tab @ '' %5.2f''"

text \<open>
  \<open>train_model\<close>, statement by statement, cut at the comments that head its parts in
  the source: the parameters, the sampler, the sizes, the preprocessing, one part for
  each classifier, the table. An assignment to a name that is already bound
  (\<open>X_train\<close>, \<open>X_test\<close>) shadows it, as in the source; \<open>scaler\<close> and \<open>normalizer\<close>
  are rebound to the object their \<^verbatim>\<open>fit_transform\<close> changed, and \<open>clf1\<close> to \<open>clf5\<close>
  to the object their \<^verbatim>\<open>fit\<close> changed. \<^verbatim>\<open>len\<close> is the length of the list of rows.
  The two prints of \<^verbatim>\<open>estimator_weights\<close> that the source has commented out are not
  there.
\<close>

definition NUM_READS :: nat where
  "NUM_READS = 1000"

definition NUM_WEAK_CLASSIFIERS :: nat where
  "NUM_WEAK_CLASSIFIERS = 30"

definition TREE_DEPTH :: nat where
  "TREE_DEPTH = 2"

definition DW_PARAMS :: dw_params where
  "DW_PARAMS = \<lparr>num_reads = NUM_READS, auto_scale = True,
                 num_spin_reversal_transforms = 10, postprocess = ''optimization''\<rparr>"

definition define_sampler :: "'o library \<Rightarrow> ('o, 'o) run" where
  "define_sampler lib =
     bnd (call_DWaveSampler lib sapi_token url) (\<lambda>dwave_sampler.
     bnd (call_EmbeddingComposite lib dwave_sampler) (\<lambda>emb_sampler.
     ret emb_sampler))"

definition print_sizes :: "matrix \<Rightarrow> matrix \<Rightarrow> ('o, unit) run" where
  "print_sizes X_train X_test =
     (let N_train = length X_train;
          N_test = length X_test
      in
     bnd (print (Items [Str (nl @ replicate 38 (CHR ''=''))])) (\<lambda>_.
     bnd (print (Fmt ''Train size: %d, Test size: %d'' [Num N_train, Num N_test])) (\<lambda>_.
     print (Items [Str ''Num weak classifiers:'', Num NUM_WEAK_CLASSIFIERS]))))"

definition preprocessing_data :: "'o library \<Rightarrow> matrix \<Rightarrow> matrix \<Rightarrow> ('o, matrix \<times> matrix) run" where
  "preprocessing_data lib X_train X_test =
     bnd (call_Imputer lib) (\<lambda>imputer.
     bnd (call_StandardScaler lib) (\<lambda>scaler.
     bnd (call_Normalizer lib) (\<lambda>normalizer.
     bnd (call_fit_transform lib scaler X_train) (\<lambda>(scaler, X_train).
     bnd (call_fit_transform lib normalizer X_train) (\<lambda>(normalizer, X_train).
     bnd (call_fit_transform lib scaler X_test) (\<lambda>(scaler, X_test).
     bnd (call_fit_transform lib normalizer X_test) (\<lambda>(normalizer, X_test).
     ret (X_train, X_test))))))))"

definition adaboost ::
  "'o library \<Rightarrow> matrix \<Rightarrow> labels \<Rightarrow> matrix \<Rightarrow> labels
   \<Rightarrow> ('o, 'o \<times> labels \<times> labels) run" where
  "adaboost lib X_train y_train X_test y_test =
     bnd (print (Items [Str (nl @ ''Adaboost'')])) (\<lambda>_.
     bnd (call_AdaBoostClassifier lib NUM_WEAK_CLASSIFIERS) (\<lambda>clf1.
     bnd (call_fit lib clf1 X_train y_train None) (\<lambda>clf1.
     bnd (call_predict lib clf1 X_train) (\<lambda>y_train1.
     bnd (call_predict lib clf1 X_test) (\<lambda>y_test1.
     bnd (metric lib y_train y_train1) (\<lambda>a.
     bnd (print (Fmt ''accu (train): %5.2f'' [Flt a])) (\<lambda>_.
     bnd (metric lib y_test y_test1) (\<lambda>a.
     bnd (print (Fmt ''accu (test): %5.2f'' [Flt a])) (\<lambda>_.
     ret (clf1, y_train1, y_test1))))))))))"

definition decision_tree ::
  "'o library \<Rightarrow> matrix \<Rightarrow> labels \<Rightarrow> matrix \<Rightarrow> labels
   \<Rightarrow> ('o, 'o \<times> labels \<times> labels) run" where
  "decision_tree lib X_train y_train X_test y_test =
     bnd (print (Items [Str (nl @ ''Decision tree'')])) (\<lambda>_.
     bnd (call_WeakClassifiers lib NUM_WEAK_CLASSIFIERS TREE_DEPTH) (\<lambda>clf2.
     bnd (call_fit lib clf2 X_train y_train None) (\<lambda>clf2.
     bnd (call_predict lib clf2 X_train) (\<lambda>y_train2.
     bnd (call_predict lib clf2 X_test) (\<lambda>y_test2.
     bnd (metric lib y_train y_train2) (\<lambda>a.
     bnd (print (Fmt ''accu (train): %5.2f'' [Flt a])) (\<lambda>_.
     bnd (metric lib y_test y_test2) (\<lambda>a.
     bnd (print (Fmt ''accu (test): %5.2f'' [Flt a])) (\<lambda>_.
     ret (clf2, y_train2, y_test2))))))))))"

definition random_forest ::
  "'o library \<Rightarrow> matrix \<Rightarrow> labels \<Rightarrow> matrix \<Rightarrow> labels
   \<Rightarrow> ('o, 'o \<times> labels \<times> labels) run" where
  "random_forest lib X_train y_train X_test y_test =
     bnd (print (Items [Str (nl @ ''Random Forest'')])) (\<lambda>_.
     bnd (call_RandomForestClassifier lib NUM_WEAK_CLASSIFIERS TREE_DEPTH) (\<lambda>clf3.
     bnd (call_fit lib clf3 X_train y_train None) (\<lambda>clf3.
     bnd (call_predict lib clf3 X_train) (\<lambda>y_train3.
     bnd (call_predict lib clf3 X_test) (\<lambda>y_test3.
     bnd (metric lib y_train y_train3) (\<lambda>a.
     bnd (print (Fmt ''accu (train): %5.2f'' [Flt a])) (\<lambda>_.
     bnd (metric lib y_test y_test3) (\<lambda>a.
     bnd (print (Fmt ''accu (test): %5.2f'' [Flt a])) (\<lambda>_.
     ret (clf3, y_train3, y_test3))))))))))"

definition qboost ::
  "'o library \<Rightarrow> 'o \<Rightarrow> rat \<Rightarrow> matrix \<Rightarrow> labels \<Rightarrow> matrix \<Rightarrow> labels
   \<Rightarrow> ('o, 'o \<times> labels \<times> labels) run" where
  "qboost lib emb_sampler lmd X_train y_train X_test y_test =
     bnd (print (Items [Str (nl @ ''QBoost'')])) (\<lambda>_.
     bnd (call_QBoostClassifier lib NUM_WEAK_CLASSIFIERS TREE_DEPTH) (\<lambda>clf4.
     bnd (call_fit lib clf4 X_train y_train (Some (emb_sampler, lmd, DW_PARAMS))) (\<lambda>clf4.
     bnd (call_predict lib clf4 X_train) (\<lambda>y_train4.
     bnd (call_predict lib clf4 X_test) (\<lambda>y_test4.
     bnd (call_estimator_weights lib clf4) (\<lambda>w.
     bnd (print (Items [Obj w])) (\<lambda>_.
     bnd (metric lib y_train y_train4) (\<lambda>a.
     bnd (print (Fmt ''accu (train): %5.2f'' [Flt a])) (\<lambda>_.
     bnd (metric lib y_test y_test4) (\<lambda>a.
     bnd (print (Fmt ''accu (test): %5.2f'' [Flt a])) (\<lambda>_.
     ret (clf4, y_train4, y_test4))))))))))))"

definition qboost_plus ::
  "'o library \<Rightarrow> 'o \<Rightarrow> rat \<Rightarrow> 'o \<Rightarrow> 'o \<Rightarrow> 'o \<Rightarrow> 'o \<Rightarrow> matrix \<Rightarrow> labels \<Rightarrow> matrix \<Rightarrow> labels
   \<Rightarrow> ('o, 'o \<times> labels \<times> labels) run" where
  "qboost_plus lib emb_sampler lmd clf1 clf2 clf3 clf4 X_train y_train X_test y_test =
     bnd (print (Items [Str (nl @ ''QBoostPlus'')])) (\<lambda>_.
     bnd (call_QboostPlus lib [clf1, clf2, clf3, clf4]) (\<lambda>clf5.
     bnd (call_fit lib clf5 X_train y_train (Some (emb_sampler, lmd, DW_PARAMS))) (\<lambda>clf5.
     bnd (call_predict lib clf5 X_train) (\<lambda>y_train5.
     bnd (call_predict lib clf5 X_test) (\<lambda>y_test5.
     bnd (call_estimator_weights lib clf5) (\<lambda>w.
     bnd (print (Items [Obj w])) (\<lambda>_.
     bnd (metric lib y_train y_train5) (\<lambda>a.
     bnd (print (Fmt ''accu (train): %5.2f'' [Flt a])) (\<lambda>_.
     bnd (metric lib y_test y_test5) (\<lambda>a.
     bnd (print (Fmt ''accu (test): %5.2f'' [Flt a])) (\<lambda>_.
     ret (clf5, y_train5, y_test5))))))))))))"

definition comparison_table ::
  "'o library \<Rightarrow> labels \<Rightarrow> labels \<Rightarrow> labels \<Rightarrow> labels \<Rightarrow> labels \<Rightarrow> labels \<Rightarrow> labels
   \<Rightarrow> labels \<Rightarrow> labels \<Rightarrow> labels \<Rightarrow> labels \<Rightarrow> labels \<Rightarrow> ('o, unit) run" where
  "comparison_table lib y_train y_test y_train1 y_test1 y_train2 y_test2 y_train3 y_test3
     y_train4 y_test4 y_train5 y_test5 =
     bnd (print (Items [Str rule_line])) (\<lambda>_.
     bnd (print (Items [Str (''Method '' @ tab @ '' Adaboost '' @ tab @ '' DecisionTree '' @ tab
                             @ '' RandomForest '' @ tab @ '' Qboost '' @ tab @ '' Qboost+'')])) (\<lambda>_.
     bnd (metric lib y_train y_train1) (\<lambda>a1.
     bnd (metric lib y_train y_train2) (\<lambda>a2.
     bnd (metric lib y_train y_train3) (\<lambda>a3.
     bnd (metric lib y_train y_train4) (\<lambda>a4.
     bnd (metric lib y_train y_train5) (\<lambda>a5.
     bnd (print (Fmt (table_row ''Train'') [Flt a1, Flt a2, Flt a3, Flt a4, Flt a5])) (\<lambda>_.
     bnd (metric lib y_test y_test1) (\<lambda>a1.
     bnd (metric lib y_test y_test2) (\<lambda>a2.
     bnd (metric lib y_test y_test3) (\<lambda>a3.
     bnd (metric lib y_test y_test4) (\<lambda>a4.
     bnd (metric lib y_test y_test5) (\<lambda>a5.
     bnd (print (Fmt (table_row ''Test'') [Flt a1, Flt a2, Flt a3, Flt a4, Flt a5])) (\<lambda>_.
     print (Items [Str rule_line])))))))))))))))"

definition train_model ::
  "'o library \<Rightarrow> matrix \<Rightarrow> labels \<Rightarrow> matrix \<Rightarrow> labels \<Rightarrow> rat \<Rightarrow> ('o, 'o list) run" where
  "train_model lib X_train y_train X_test y_test lmd =
     bnd (define_sampler lib) (\<lambda>emb_sampler.
     bnd (print_sizes X_train X_test) (\<lambda>_.
     bnd (preprocessing_data lib X_train X_test) (\<lambda>(X_train, X_test).
     bnd (adaboost lib X_train y_train X_test y_test) (\<lambda>(clf1, y_train1, y_test1).
     bnd (decision_tree lib X_train y_train X_test y_test) (\<lambda>(clf2, y_train2, y_test2).
     bnd (random_forest lib X_train y_train X_test y_test) (\<lambda>(clf3, y_train3, y_test3).
     bnd (qboost lib emb_sampler lmd X_train y_train X_test y_test) (\<lambda>(clf4, y_train4, y_test4).
     bnd (qboost_plus lib emb_sampler lmd clf1 clf2 clf3 clf4 X_train y_train X_test y_test) (\<lambda>(clf5, y_train5, y_test5).
     bnd (comparison_table lib y_train y_test y_train1 y_test1 y_train2 y_test2
            y_train3 y_test3 y_train4 y_test4 y_train5 y_test5) (\<lambda>_.
     ret [clf1, clf2, clf3, clf4, clf5])))))))))"

text \<open>
  The function the source would be without the line
  \<^verbatim>\<open>imputer = preprocessing.Imputer()\<close>: every other statement as in \<open>train_model\<close>.
\<close>

definition preprocessing_without_imputer ::
  "'o library \<Rightarrow> matrix \<Rightarrow> matrix \<Rightarrow> ('o, matrix \<times> matrix) run" where
  "preprocessing_without_imputer lib X_train X_test =
     bnd (call_StandardScaler lib) (\<lambda>scaler.
     bnd (call_Normalizer lib) (\<lambda>normalizer.
     bnd (call_fit_transform lib scaler X_train) (\<lambda>(scaler, X_train).
     bnd (call_fit_transform lib normalizer X_train) (\<lambda>(normalizer, X_train).
     bnd (call_fit_transform lib scaler X_test) (\<lambda>(scaler, X_test).
     bnd (call_fit_transform lib normalizer X_test) (\<lambda>(normalizer, X_test).
     ret (X_train, X_test)))))))"

definition train_model_without_imputer ::
  "'o library \<Rightarrow> matrix \<Rightarrow> labels \<Rightarrow> matrix \<Rightarrow> labels \<Rightarrow> rat \<Rightarrow> ('o, 'o list) run" where
  "train_model_without_imputer lib X_train y_train X_test y_test lmd =
     bnd (define_sampler lib) (\<lambda>emb_sampler.
     bnd (print_sizes X_train X_test) (\<lambda>_.
     bnd (preprocessing_without_imputer lib X_train X_test) (\<lambda>(X_train, X_test).
     bnd (adaboost lib X_train y_train X_test y_test) (\<lambda>(clf1, y_train1, y_test1).
     bnd (decision_tree lib X_train y_train X_test y_test) (\<lambda>(clf2, y_train2, y_test2).
     bnd (random_forest lib X_train y_train X_test y_test) (\<lambda>(clf3, y_train3, y_test3).
     bnd (qboost lib emb_sampler lmd X_train y_train X_test y_test) (\<lambda>(clf4, y_train4, y_test4).
     bnd (qboost_plus lib emb_sampler lmd clf1 clf2 clf3 clf4 X_train y_train X_test y_test) (\<lambda>(clf5, y_train5, y_test5).
     bnd (comparison_table lib y_train y_test y_train1 y_test1 y_train2 y_test2
            y_train3 y_test3 y_train4 y_test4 y_train5 y_test5) (\<lambda>_.
     ret [clf1, clf2, clf3, clf4, clf5])))))))))"

section \<open>Observations on runs\<close>

text \<open>
  The static part of a call: the callee and the arguments that the source fixes
  (strings, the numbers of estimators and the depth, the sampling parameters, whether
  \<^verbatim>\<open>fit\<close> gets a sampler), with every object, matrix, label vector and number that
  depends on the data or on the libraries' answers erased.
\<close>

fun static_val :: "'o pyval \<Rightarrow> unit pyval" where
  "static_val (Str s) = Str s"
| "static_val (Num n) = Num 0"
| "static_val (Flt a) = Flt 0"
| "static_val (Obj x) = Obj ()"

fun static_printed :: "'o printed \<Rightarrow> unit printed" where
  "static_printed (Items vs) = Items (map static_val vs)"
| "static_printed (Fmt s vs) = Fmt s (map static_val vs)"

fun static :: "'o call \<Rightarrow> unit call" where
  "static (C_DWaveSampler token endpoint) = C_DWaveSampler token endpoint"
| "static (C_EmbeddingComposite s) = C_EmbeddingComposite ()"
| "static C_Imputer = C_Imputer"
| "static C_StandardScaler = C_StandardScaler"
| "static C_Normalizer = C_Normalizer"
| "static (C_fit_transform t X) = C_fit_transform () []"
| "static (C_AdaBoostClassifier n) = C_AdaBoostClassifier n"
| "static (C_WeakClassifiers n d) = C_WeakClassifiers n d"
| "static (C_RandomForestClassifier n d) = C_RandomForestClassifier n d"
| "static (C_QBoostClassifier n d) = C_QBoostClassifier n d"
| "static (C_QboostPlus clfs) = C_QboostPlus (map (\<lambda>_. ()) clfs)"
| "static (C_fit clf X y sampling) =
     C_fit () [] [] (map_option (\<lambda>(s, lmd, params). ((), 0, params)) sampling)"
| "static (C_predict clf X) = C_predict () []"
| "static (C_estimator_weights clf) = C_estimator_weights ()"
| "static (C_accuracy_score y y_pred) = C_accuracy_score [] []"
| "static (C_print p) = C_print (static_printed p)"

definition calls :: "('o, 'a) run \<Rightarrow> 'o call list" where
  "calls r = map called (fst r)"

fun is_fit :: "'o call \<Rightarrow> bool" where
  "is_fit (C_fit clf X y sampling) = True"
| "is_fit _ = False"

fun is_sampler_fit :: "'o call \<Rightarrow> bool" where
  "is_sampler_fit (C_fit clf X y (Some sampling)) = True"
| "is_sampler_fit _ = False"

fun is_fit_transform :: "'o call \<Rightarrow> bool" where
  "is_fit_transform (C_fit_transform t X) = True"
| "is_fit_transform _ = False"

fun is_DWaveSampler :: "'o call \<Rightarrow> bool" where
  "is_DWaveSampler (C_DWaveSampler token endpoint) = True"
| "is_DWaveSampler _ = False"



fun prints_format :: "string \<Rightarrow> 'o call \<Rightarrow> bool" where
  "prints_format s (C_print (Fmt s' vs)) = (s = s')"
| "prints_format s _ = False"

text \<open>The matrices given to \<^verbatim>\<open>predict\<close>, and the results of the \<^verbatim>\<open>fit\<close> calls.\<close>

fun predict_inputs :: "'o call list \<Rightarrow> matrix list" where
  "predict_inputs [] = []"
| "predict_inputs (C_predict clf X # cs) = X # predict_inputs cs"
| "predict_inputs (c # cs) = predict_inputs cs"

fun fit_results :: "'o library \<Rightarrow> 'o call list \<Rightarrow> (error + 'o) list" where
  "fit_results lib [] = []"
| "fit_results lib (C_fit clf X y sampling # cs) = fit lib clf X y sampling # fit_results lib cs"
| "fit_results lib (c # cs) = fit_results lib cs"

text \<open>
  The order of the calls of \<open>train_model\<close>, as static parts: the sampler, the header,
  the preprocessing, one block for each classifier, the table.
\<close>

definition accuracy_schedule :: "unit call list" where
  "accuracy_schedule =
     [C_accuracy_score [] [], C_print (Fmt ''accu (train): %5.2f'' [Flt 0]),
      C_accuracy_score [] [], C_print (Fmt ''accu (test): %5.2f'' [Flt 0])]"

definition classifier_schedule :: "string \<Rightarrow> unit call \<Rightarrow> unit call list" where
  "classifier_schedule title constructor =
     [C_print (Items [Str (nl @ title)]), constructor, C_fit () [] [] None,
      C_predict () [], C_predict () []] @ accuracy_schedule"

definition annealer_classifier_schedule :: "string \<Rightarrow> unit call \<Rightarrow> unit call list" where
  "annealer_classifier_schedule title constructor =
     [C_print (Items [Str (nl @ title)]), constructor,
      C_fit () [] [] (Some ((), 0, DW_PARAMS)),
      C_predict () [], C_predict () [],
      C_estimator_weights (), C_print (Items [Obj ()])] @ accuracy_schedule"

definition table_schedule :: "unit call list" where
  "table_schedule =
     [C_print (Items [Str rule_line]),
      C_print (Items [Str (''Method '' @ tab @ '' Adaboost '' @ tab @ '' DecisionTree '' @ tab
                           @ '' RandomForest '' @ tab @ '' Qboost '' @ tab @ '' Qboost+'')])]
     @ [C_accuracy_score [] [], C_accuracy_score [] [], C_accuracy_score [] [],
        C_accuracy_score [] [], C_accuracy_score [] [],
        C_print (Fmt (table_row ''Train'') [Flt 0, Flt 0, Flt 0, Flt 0, Flt 0]),
        C_accuracy_score [] [], C_accuracy_score [] [], C_accuracy_score [] [],
        C_accuracy_score [] [], C_accuracy_score [] [],
        C_print (Fmt (table_row ''Test'') [Flt 0, Flt 0, Flt 0, Flt 0, Flt 0]),
        C_print (Items [Str rule_line])]"

definition sampler_schedule :: "unit call list" where
  "sampler_schedule = [C_DWaveSampler sapi_token url, C_EmbeddingComposite ()]"

definition sizes_schedule :: "unit call list" where
  "sizes_schedule =
     [C_print (Items [Str (nl @ replicate 38 (CHR ''=''))]),
      C_print (Fmt ''Train size: %d, Test size: %d'' [Num 0, Num 0]),
      C_print (Items [Str ''Num weak classifiers:'', Num 0])]"

definition preprocessing_schedule :: "unit call list" where
  "preprocessing_schedule =
     [C_Imputer, C_StandardScaler, C_Normalizer,
      C_fit_transform () [], C_fit_transform () [],
      C_fit_transform () [], C_fit_transform () []]"

definition train_model_schedule :: "unit call list" where
  "train_model_schedule =
     sampler_schedule @ sizes_schedule @ preprocessing_schedule
     @ classifier_schedule ''Adaboost'' (C_AdaBoostClassifier NUM_WEAK_CLASSIFIERS)
     @ classifier_schedule ''Decision tree'' (C_WeakClassifiers NUM_WEAK_CLASSIFIERS TREE_DEPTH)
     @ classifier_schedule ''Random Forest''
         (C_RandomForestClassifier NUM_WEAK_CLASSIFIERS TREE_DEPTH)
     @ annealer_classifier_schedule ''QBoost'' (C_QBoostClassifier NUM_WEAK_CLASSIFIERS TREE_DEPTH)
     @ annealer_classifier_schedule ''QBoostPlus'' (C_QboostPlus [(), (), (), ()])
     @ table_schedule"

section \<open>The calls of a run that returns, from the libraries' answers\<close>

text \<open>
  What a run of \<open>train_model\<close> in which no call raises is said to be: the libraries'
  answers to its calls, and the calls written with these answers. For one classifier
  the answers are the object its constructor returned, the object \<^verbatim>\<open>fit\<close> returned, the
  two predictions and the two accuracies.
\<close>

record 'o fitted =
  constructed :: 'o
  fitted_clf :: 'o
  train_pred :: labels
  test_pred :: labels
  train_accu :: rat
  test_accu :: rat

record 'o answers =
  ans_dwave_sampler :: 'o
  ans_emb_sampler :: 'o
  ans_imputer :: 'o
  ans_scaler :: 'o
  ans_normalizer :: 'o
  ans_scaler_train :: 'o
  ans_X_train_scaled :: matrix
  ans_normalizer_train :: 'o
  ans_X_train :: matrix
  ans_scaler_test :: 'o
  ans_X_test_scaled :: matrix
  ans_normalizer_test :: 'o
  ans_X_test :: matrix
  ans_clf1 :: "'o fitted"
  ans_clf2 :: "'o fitted"
  ans_clf3 :: "'o fitted"
  ans_clf4 :: "'o fitted"
  ans_clf5 :: "'o fitted"
  ans_weights4 :: 'o
  ans_weights5 :: 'o

definition classifier_answers ::
  "'o library \<Rightarrow> error + 'o \<Rightarrow> ('o \<times> rat \<times> dw_params) option
   \<Rightarrow> matrix \<Rightarrow> labels \<Rightarrow> matrix \<Rightarrow> labels \<Rightarrow> 'o fitted \<Rightarrow> bool" where
  "classifier_answers lib built sampling X_train y_train X_test y_test c =
     (built = Inr (constructed c)
      \<and> fit lib (constructed c) X_train y_train sampling = Inr (fitted_clf c)
      \<and> predict lib (fitted_clf c) X_train = Inr (train_pred c)
      \<and> predict lib (fitted_clf c) X_test = Inr (test_pred c)
      \<and> accuracy_score lib y_train (train_pred c) = Inr (train_accu c)
      \<and> accuracy_score lib y_test (test_pred c) = Inr (test_accu c))"

definition library_answers ::
  "'o library \<Rightarrow> matrix \<Rightarrow> labels \<Rightarrow> matrix \<Rightarrow> labels \<Rightarrow> rat \<Rightarrow> 'o answers \<Rightarrow> bool" where
  "library_answers lib X_train y_train X_test y_test lmd v =
     (DWaveSampler lib sapi_token url = Inr (ans_dwave_sampler v)
      \<and> EmbeddingComposite lib (ans_dwave_sampler v) = Inr (ans_emb_sampler v)
      \<and> Imputer lib = Inr (ans_imputer v)
      \<and> StandardScaler lib = Inr (ans_scaler v)
      \<and> Normalizer lib = Inr (ans_normalizer v)
      \<and> fit_transform lib (ans_scaler v) X_train
          = Inr (ans_scaler_train v, ans_X_train_scaled v)
      \<and> fit_transform lib (ans_normalizer v) (ans_X_train_scaled v)
          = Inr (ans_normalizer_train v, ans_X_train v)
      \<and> fit_transform lib (ans_scaler_train v) X_test
          = Inr (ans_scaler_test v, ans_X_test_scaled v)
      \<and> fit_transform lib (ans_normalizer_train v) (ans_X_test_scaled v)
          = Inr (ans_normalizer_test v, ans_X_test v)
      \<and> classifier_answers lib (AdaBoostClassifier lib NUM_WEAK_CLASSIFIERS) None
          (ans_X_train v) y_train (ans_X_test v) y_test (ans_clf1 v)
      \<and> classifier_answers lib (WeakClassifiers lib NUM_WEAK_CLASSIFIERS TREE_DEPTH) None
          (ans_X_train v) y_train (ans_X_test v) y_test (ans_clf2 v)
      \<and> classifier_answers lib (RandomForestClassifier lib NUM_WEAK_CLASSIFIERS TREE_DEPTH) None
          (ans_X_train v) y_train (ans_X_test v) y_test (ans_clf3 v)
      \<and> classifier_answers lib (QBoostClassifier lib NUM_WEAK_CLASSIFIERS TREE_DEPTH)
          (Some (ans_emb_sampler v, lmd, DW_PARAMS))
          (ans_X_train v) y_train (ans_X_test v) y_test (ans_clf4 v)
      \<and> estimator_weights lib (fitted_clf (ans_clf4 v)) = Inr (ans_weights4 v)
      \<and> classifier_answers lib
          (QboostPlus lib [fitted_clf (ans_clf1 v), fitted_clf (ans_clf2 v),
                           fitted_clf (ans_clf3 v), fitted_clf (ans_clf4 v)])
          (Some (ans_emb_sampler v, lmd, DW_PARAMS))
          (ans_X_train v) y_train (ans_X_test v) y_test (ans_clf5 v)
      \<and> estimator_weights lib (fitted_clf (ans_clf5 v)) = Inr (ans_weights5 v))"

definition accuracy_calls :: "labels \<Rightarrow> labels \<Rightarrow> 'o fitted \<Rightarrow> 'o call list" where
  "accuracy_calls y_train y_test c =
     [C_accuracy_score y_train (train_pred c),
      C_print (Fmt ''accu (train): %5.2f'' [Flt (train_accu c)]),
      C_accuracy_score y_test (test_pred c),
      C_print (Fmt ''accu (test): %5.2f'' [Flt (test_accu c)])]"

definition classifier_calls ::
  "string \<Rightarrow> 'o call \<Rightarrow> matrix \<Rightarrow> labels \<Rightarrow> matrix \<Rightarrow> labels \<Rightarrow> 'o fitted \<Rightarrow> 'o call list" where
  "classifier_calls title constructor X_train y_train X_test y_test c =
     [C_print (Items [Str (nl @ title)]), constructor,
      C_fit (constructed c) X_train y_train None,
      C_predict (fitted_clf c) X_train, C_predict (fitted_clf c) X_test]
     @ accuracy_calls y_train y_test c"

definition annealer_classifier_calls ::
  "string \<Rightarrow> 'o call \<Rightarrow> 'o \<Rightarrow> rat \<Rightarrow> matrix \<Rightarrow> labels \<Rightarrow> matrix \<Rightarrow> labels \<Rightarrow> 'o fitted \<Rightarrow> 'o
   \<Rightarrow> 'o call list" where
  "annealer_classifier_calls title constructor emb_sampler lmd X_train y_train X_test y_test c w =
     [C_print (Items [Str (nl @ title)]), constructor,
      C_fit (constructed c) X_train y_train (Some (emb_sampler, lmd, DW_PARAMS)),
      C_predict (fitted_clf c) X_train, C_predict (fitted_clf c) X_test,
      C_estimator_weights (fitted_clf c), C_print (Items [Obj w])]
     @ accuracy_calls y_train y_test c"

definition table_calls :: "labels \<Rightarrow> labels \<Rightarrow> 'o fitted list \<Rightarrow> 'o call list" where
  "table_calls y_train y_test cs =
     [C_print (Items [Str rule_line]),
      C_print (Items [Str (''Method '' @ tab @ '' Adaboost '' @ tab @ '' DecisionTree '' @ tab
                           @ '' RandomForest '' @ tab @ '' Qboost '' @ tab @ '' Qboost+'')])]
     @ map (\<lambda>c. C_accuracy_score y_train (train_pred c)) cs
     @ [C_print (Fmt (table_row ''Train'') (map (\<lambda>c. Flt (train_accu c)) cs))]
     @ map (\<lambda>c. C_accuracy_score y_test (test_pred c)) cs
     @ [C_print (Fmt (table_row ''Test'') (map (\<lambda>c. Flt (test_accu c)) cs)),
        C_print (Items [Str rule_line])]"

definition train_model_calls ::
  "matrix \<Rightarrow> labels \<Rightarrow> matrix \<Rightarrow> labels \<Rightarrow> rat \<Rightarrow> 'o answers \<Rightarrow> 'o call list" where
  "train_model_calls X_train y_train X_test y_test lmd v =
     [C_DWaveSampler sapi_token url, C_EmbeddingComposite (ans_dwave_sampler v),
      C_print (Items [Str (nl @ replicate 38 (CHR ''=''))]),
      C_print (Fmt ''Train size: %d, Test size: %d'' [Num (length X_train), Num (length X_test)]),
      C_print (Items [Str ''Num weak classifiers:'', Num NUM_WEAK_CLASSIFIERS]),
      C_Imputer, C_StandardScaler, C_Normalizer,
      C_fit_transform (ans_scaler v) X_train,
      C_fit_transform (ans_normalizer v) (ans_X_train_scaled v),
      C_fit_transform (ans_scaler_train v) X_test,
      C_fit_transform (ans_normalizer_train v) (ans_X_test_scaled v)]
     @ classifier_calls ''Adaboost'' (C_AdaBoostClassifier NUM_WEAK_CLASSIFIERS)
         (ans_X_train v) y_train (ans_X_test v) y_test (ans_clf1 v)
     @ classifier_calls ''Decision tree'' (C_WeakClassifiers NUM_WEAK_CLASSIFIERS TREE_DEPTH)
         (ans_X_train v) y_train (ans_X_test v) y_test (ans_clf2 v)
     @ classifier_calls ''Random Forest''
         (C_RandomForestClassifier NUM_WEAK_CLASSIFIERS TREE_DEPTH)
         (ans_X_train v) y_train (ans_X_test v) y_test (ans_clf3 v)
     @ annealer_classifier_calls ''QBoost'' (C_QBoostClassifier NUM_WEAK_CLASSIFIERS TREE_DEPTH)
         (ans_emb_sampler v) lmd (ans_X_train v) y_train (ans_X_test v) y_test
         (ans_clf4 v) (ans_weights4 v)
     @ annealer_classifier_calls ''QBoostPlus''
         (C_QboostPlus [fitted_clf (ans_clf1 v), fitted_clf (ans_clf2 v),
                        fitted_clf (ans_clf3 v), fitted_clf (ans_clf4 v)])
         (ans_emb_sampler v) lmd (ans_X_train v) y_train (ans_X_test v) y_test
         (ans_clf5 v) (ans_weights5 v)
     @ table_calls y_train y_test
         [ans_clf1 v, ans_clf2 v, ans_clf3 v, ans_clf4 v, ans_clf5 v]"

section \<open>What the model assumes of scikit-learn where a claim depends on it\<close>

text \<open>
  The fraction of the positions at which two label vectors agree, and a library whose
  \<^verbatim>\<open>accuracy_score\<close> returns it for two vectors of the same, positive length.
\<close>

definition accuracy_fraction :: "labels \<Rightarrow> labels \<Rightarrow> rat" where
  "accuracy_fraction y y_pred =
     of_nat (length (filter (\<lambda>(a, b). a = b) (zip y y_pred))) / of_nat (length y)"

definition scores_accuracy :: "'o library \<Rightarrow> bool" where
  "scores_accuracy lib =
     (\<forall>y y_pred. length y = length y_pred \<and> y \<noteq> []
        \<longrightarrow> accuracy_score lib y y_pred = Inr (accuracy_fraction y y_pred))"

text \<open>
  A library whose \<^verbatim>\<open>fit_transform\<close> fits anew: for a transformer \<open>t\<close> and the object
  \<open>t'\<close> that it has become by being fitted on some data \<open>X0\<close>, \<^verbatim>\<open>fit_transform\<close> on a
  matrix \<open>X\<close> has the same outcome, the returned matrix or the error, on \<open>t'\<close> as on
  \<open>t\<close>. Nothing is said of two different transformers.
\<close>

definition refits :: "'o library \<Rightarrow> bool" where
  "refits lib =
     (\<forall>t X0 t' M0 X. fit_transform lib t X0 = Inr (t', M0)
        \<longrightarrow> map_sum id snd (fit_transform lib t' X) = map_sum id snd (fit_transform lib t X))"

section \<open>Libraries for the examples\<close>

text \<open>
  A library in which every call succeeds, with objects numbered. A transformer with an
  even number is a scaler, which subtracts from every entry the first entry of the
  matrix it is fitted on; one with an odd number is a normalizer, which doubles every
  entry; fitting keeps the kind. A classifier predicts its own number for every row.
  Then the same library with an annealer that cannot be reached, so that \<^verbatim>\<open>fit\<close> with
  a sampler raises, and with an \<^verbatim>\<open>accuracy_score\<close> that raises on empty vectors.
\<close>

definition first_entry :: "matrix \<Rightarrow> rat" where
  "first_entry X = (case X of (v # row) # rows \<Rightarrow> v | _ \<Rightarrow> 0)"

definition toy_library :: "nat library" where
  "toy_library =
     \<lparr>DWaveSampler = (\<lambda>token endpoint.
         if token = sapi_token then Inr 1 else Inl AuthenticationFailure),
      EmbeddingComposite = (\<lambda>s. Inr 2),
      Imputer = Inr 3,
      StandardScaler = Inr 4,
      Normalizer = Inr 5,
      fit_transform = (\<lambda>t X.
         if even t then Inr (t + 10, map (map (\<lambda>v. v - first_entry X)) X)
         else Inr (t + 10, map (map (\<lambda>v. 2 * v)) X)),
      AdaBoostClassifier = (\<lambda>n. Inr 100),
      WeakClassifiers = (\<lambda>n d. Inr 200),
      RandomForestClassifier = (\<lambda>n d. Inr 300),
      QBoostClassifier = (\<lambda>n d. Inr 400),
      QboostPlus = (\<lambda>clfs. Inr 500),
      fit = (\<lambda>clf X y sampling. Inr (clf + 1)),
      predict = (\<lambda>clf X. Inr (map (\<lambda>row. int clf) X)),
      estimator_weights = (\<lambda>clf. Inr (clf + 1000)),
      accuracy_score = (\<lambda>y y_pred.
         if length y = length y_pred then Inr (accuracy_fraction y y_pred)
         else Inl MalformedData)\<rparr>"

definition offline_library :: "nat library" where
  "offline_library =
     toy_library\<lparr>fit := (\<lambda>clf X y sampling.
        case sampling of None \<Rightarrow> Inr (clf + 1) | Some s \<Rightarrow> Inl NetworkFailure)\<rparr>"

definition strict_library :: "nat library" where
  "strict_library =
     toy_library\<lparr>accuracy_score := (\<lambda>y y_pred.
        if length y \<noteq> length y_pred then Inl MalformedData
        else if y = [] then Inl ValueError
        else Inr (accuracy_fraction y y_pred))\<rparr>"

text \<open>
  A run follows a schedule when the static parts of its calls are a prefix of the
  schedule, and the whole schedule when the run returns.
\<close>

definition follows :: "('o, 'a) run \<Rightarrow> unit call list \<Rightarrow> bool" where
  "follows m ks =
     (prefix (map static (calls m)) ks \<and> (\<not> isl (snd m) \<longrightarrow> map static (calls m) = ks))"

text \<open>
  Errors are not caught in a run when a call that raises is the last call of the run
  and its error is the run's outcome, and a run that returns has no call that raised.
\<close>

definition uncaught :: "('o, 'a) run \<Rightarrow> bool" where
  "uncaught m =
     (case snd m of
        Inl e \<Rightarrow> fst m \<noteq> [] \<and> raised (last (fst m)) = Some e
                 \<and> list_all (\<lambda>ev. raised ev = None) (butlast (fst m))
      | Inr a \<Rightarrow> list_all (\<lambda>ev. raised ev = None) (fst m))"

text \<open>Every call of a run satisfies \<open>P\<close>.\<close>

definition all_calls :: "('o call \<Rightarrow> bool) \<Rightarrow> ('o, 'a) run \<Rightarrow> bool" where
  "all_calls P m = list_all P (calls m)"

text \<open>
  Two runs agree on the calls that satisfy \<open>Q\<close> when they have the same outcome and the
  second makes exactly the calls of the first that satisfy \<open>Q\<close>.
\<close>

definition agree_on :: "('o call \<Rightarrow> bool) \<Rightarrow> ('o, 'a) run \<Rightarrow> ('o, 'a) run \<Rightarrow> bool" where
  "agree_on Q m m' = (snd m = snd m' \<and> filter Q (calls m) = calls m')"

text \<open>
  What the claim on the test matrix says the preprocessing is for \<open>X_test\<close>: a scaler
  and a normalizer, each fitted on the test data and applied to it.
\<close>

definition refit_on_test :: "'o library \<Rightarrow> matrix \<Rightarrow> error + matrix" where
  "refit_on_test lib X_test =
     (case StandardScaler lib of Inl e \<Rightarrow> Inl e | Inr scaler \<Rightarrow>
     (case Normalizer lib of Inl e \<Rightarrow> Inl e | Inr normalizer \<Rightarrow>
     (case fit_transform lib scaler X_test of Inl e \<Rightarrow> Inl e | Inr (scaler, X_test) \<Rightarrow>
     (case fit_transform lib normalizer X_test of Inl e \<Rightarrow> Inl e | Inr (normalizer, X_test) \<Rightarrow>
      Inr X_test))))"

section \<open>The label vectors and the shapes of the experiments\<close>

lemma take_rows_Inr: "take_rows a idx = Inr r \<Longrightarrow> r = map (\<lambda>i. a ! i) idx \<and> (\<forall>i\<in>set idx. i < length a)"
  by (auto simp: take_rows_def list_all_iff split: if_splits)

lemma flat_length:
  assumes "list_all (\<lambda>img. length (concat img) = c) x" "\<forall>i\<in>set idx. i < length x"
  shows "length (concat (map concat (map (\<lambda>i. x ! i) idx))) = length idx * c"
  using assms(2)
proof (induction idx)
  case Nil then show ?case by simp
next
  case (Cons i idx)
  then have "length (concat (x ! i)) = c" using assms(1) by (auto simp: list_all_iff)
  with Cons show ?case by simp
qed

lemma reshape_Inr: "reshape X r c = Inr M \<Longrightarrow> length M = r \<and> length (concat (map concat X)) = r * c"
  by (auto simp: reshape_def Let_def split: if_splits)

lemma digit_to_spin_cases: "digit_to_spin d = 1 \<or> digit_to_spin d = -1"
  by (simp add: digit_to_spin_def)

lemma cell_14_Inr:
  assumes "cell_14 shuffle g x_train y_train x_test y_test = Inr (X1, y1, X2, y2)"
  shows "\<exists>i1 i2. (\<forall>i\<in>set i1. i < length x_train) \<and> (\<forall>i\<in>set i2. i < length x_test) \<and>
    reshape (map (\<lambda>i. x_train ! i) i1) 15000 784 = Inr X1 \<and>
    reshape (map (\<lambda>i. x_test ! i) i2) 15000 784 = Inr X2 \<and>
    y1 = map digit_to_spin (map (\<lambda>i. y_train ! i) i1) \<and>
    y2 = map digit_to_spin (map (\<lambda>i. y_test ! i) i2)"
proof -
  define p1 where "p1 = shuffle g (where_le_9 x_train)"
  define p2 where "p2 = shuffle (snd p1) (where_le_9 x_test)"
  define i1 where "i1 = take 15000 (fst p1)"
  define i2 where "i2 = take 15000 (fst p2)"
  have unfolded: "cell_14 shuffle g x_train y_train x_test y_test =
     (case take_rows x_train i1 of Inl e \<Rightarrow> Inl e | Inr X_train \<Rightarrow>
     (case take_rows x_test i2 of Inl e \<Rightarrow> Inl e | Inr X_test \<Rightarrow>
     (case take_rows y_train i1 of Inl e \<Rightarrow> Inl e | Inr y_train_sel \<Rightarrow>
     (case take_rows y_test i2 of Inl e \<Rightarrow> Inl e | Inr y_test_sel \<Rightarrow>
     (case reshape X_train 15000 784 of Inl e \<Rightarrow> Inl e | Inr X_train \<Rightarrow>
     (case reshape X_test 15000 784 of Inl e \<Rightarrow> Inl e | Inr X_test \<Rightarrow>
      Inr (X_train, map digit_to_spin y_train_sel,
           X_test, map digit_to_spin y_test_sel)))))))"
    unfolding cell_14_def Let_def split_beta p1_def p2_def i1_def i2_def by (rule refl)
  from assms[unfolded unfolded] show ?thesis
    by (intro exI[of _ i1] exI[of _ i2]) (auto split: sum.splits dest!: take_rows_Inr)
qed

lemma cell_21_Inr:
  assumes "cell_21 shuffle g data target = Inr (X1, y1, X2, y2)"
  shows "\<exists>i1 i2. X1 = map (\<lambda>i. data ! i) i1 \<and> X2 = map (\<lambda>i. data ! i) i2 \<and>
    y1 = map binary_to_spin (map (\<lambda>i. target ! i) i1) \<and>
    y2 = map binary_to_spin (map (\<lambda>i. target ! i) i2) \<and>
    (\<forall>i\<in>set i1. i < length target) \<and> (\<forall>i\<in>set i2. i < length target)"
proof -
  define p where "p = shuffle g [0..<length target]"
  define i1 where "i1 = take (2 * length (fst p) div 3) (fst p)"
  define i2 where "i2 = drop (2 * length (fst p) div 3) (fst p)"
  have unfolded: "cell_21 shuffle g data target =
     (case take_rows data i1 of Inl e \<Rightarrow> Inl e | Inr X_train \<Rightarrow>
     (case take_rows data i2 of Inl e \<Rightarrow> Inl e | Inr X_test \<Rightarrow>
     (case take_rows target i1 of Inl e \<Rightarrow> Inl e | Inr t_train \<Rightarrow>
     (case take_rows target i2 of Inl e \<Rightarrow> Inl e | Inr t_test \<Rightarrow>
      Inr (X_train, map binary_to_spin t_train, X_test, map binary_to_spin t_test)))))"
    unfolding cell_21_def Let_def split_beta p_def i1_def i2_def by (rule refl)
  from assms[unfolded unfolded] show ?thesis
    by (intro exI[of _ i1] exI[of _ i2]) (auto split: sum.splits dest!: take_rows_Inr)
qed

text \<open>
  C4. Every label vector that cells 14 and 21 build, and that cells 18 and 24 pass to
  \<open>train_model\<close>, has entries \<open>+1\<close> and \<open>-1\<close> only: for MNIST whatever the digits
  are, for the breast-cancer data when the targets are 0 or 1.
\<close>

theorem labels_are_spins:
  "(cell_14 shuffle g x_train y_train x_test y_test = Inr (X1, y1, X2, y2)
      \<longrightarrow> set y1 \<subseteq> {1, -1} \<and> set y2 \<subseteq> {1, -1}) \<and>
   (set target \<subseteq> {0, 1} \<and> cell_21 shuffle' g' data target = Inr (X1', y1', X2', y2')
      \<longrightarrow> set y1' \<subseteq> {1, -1} \<and> set y2' \<subseteq> {1, -1})"
proof (intro conjI impI)
  assume "cell_14 shuffle g x_train y_train x_test y_test = Inr (X1, y1, X2, y2)"
  from cell_14_Inr[OF this] obtain i1 i2 where
    "y1 = map digit_to_spin (map (\<lambda>i. y_train ! i) i1)"
    "y2 = map digit_to_spin (map (\<lambda>i. y_test ! i) i2)" by blast
  then show "set y1 \<subseteq> {1, -1}" "set y2 \<subseteq> {1, -1}"
    using digit_to_spin_cases by auto
next
  assume a: "set target \<subseteq> {0, 1} \<and> cell_21 shuffle' g' data target = Inr (X1', y1', X2', y2')"
  from cell_21_Inr[OF conjunct2[OF a]] obtain i1 i2 where
    y: "y1' = map binary_to_spin (map (\<lambda>i. target ! i) i1)"
       "y2' = map binary_to_spin (map (\<lambda>i. target ! i) i2)"
    and r: "\<forall>i\<in>set i1. i < length target" "\<forall>i\<in>set i2. i < length target" by blast
  have "binary_to_spin (target ! i) \<in> {1, -1}" if "i < length target" for i
  proof -
    from that a have "target ! i \<in> {0, 1}" using nth_mem by blast
    then show ?thesis by (auto simp: binary_to_spin_def)
  qed
  with y r show "set y1' \<subseteq> {1, -1}" "set y2' \<subseteq> {1, -1}" by auto
qed

text \<open>
  C5. In both experiments the feature matrix and the label vector passed to
  \<open>train_model\<close> have as many rows as labels, for the training pair and for the test
  pair; for MNIST, whose images have 28 by 28 entries, both have 15000.
\<close>

theorem rows_match_labels:
  "(mnist_images x_train \<and> mnist_images x_test \<and>
    cell_14 shuffle g x_train y_train x_test y_test = Inr (X1, y1, X2, y2)
      \<longrightarrow> length X1 = length y1 \<and> length X2 = length y2
          \<and> length X1 = 15000 \<and> length X2 = 15000) \<and>
   (cell_21 shuffle' g' data target = Inr (X1', y1', X2', y2')
      \<longrightarrow> length X1' = length y1' \<and> length X2' = length y2')"
proof (intro conjI impI)
  assume a: "mnist_images x_train \<and> mnist_images x_test \<and>
    cell_14 shuffle g x_train y_train x_test y_test = Inr (X1, y1, X2, y2)"
  then have m: "list_all (\<lambda>img. length (concat img) = 784) x_train"
                "list_all (\<lambda>img. length (concat img) = 784) x_test"
    by (simp_all add: mnist_images_def)
  from cell_14_Inr[OF conjunct2[OF conjunct2[OF a]]] obtain i1 i2 where
    r: "\<forall>i\<in>set i1. i < length x_train" "\<forall>i\<in>set i2. i < length x_test"
    and s: "reshape (map (\<lambda>i. x_train ! i) i1) 15000 784 = Inr X1"
           "reshape (map (\<lambda>i. x_test ! i) i2) 15000 784 = Inr X2"
    and y: "y1 = map digit_to_spin (map (\<lambda>i. y_train ! i) i1)"
           "y2 = map digit_to_spin (map (\<lambda>i. y_test ! i) i2)" by blast
  from reshape_Inr[OF s(1)] flat_length[OF m(1) r(1)]
  have "length X1 = 15000" "length i1 = 15000" by simp_all
  moreover from reshape_Inr[OF s(2)] flat_length[OF m(2) r(2)]
  have "length X2 = 15000" "length i2 = 15000" by simp_all
  ultimately show "length X1 = length y1" "length X2 = length y2"
    "length X1 = 15000" "length X2 = 15000"
    using y by simp_all
next
  assume "cell_21 shuffle' g' data target = Inr (X1', y1', X2', y2')"
  from cell_21_Inr[OF this] show "length X1' = length y1'" "length X2' = length y2'"
    by auto
qed



lemma one_dark_image_size: "length (concat one_dark_image) = 784"
  by (simp add: one_dark_image_def length_concat sum_list_replicate)

lemma one_dark_image_count: "length (filter (\<lambda>p. p \<le> 9) (concat one_dark_image)) = 1"
  by (simp add: one_dark_image_def filter_concat)

lemma where_le_9_replicate:
  assumes "length (filter (\<lambda>p. p \<le> 9) (concat img)) = 1"
  shows "where_le_9 (replicate n img) = [0..<n]"
proof -
  have eq: "map (\<lambda>i. replicate (length (filter (\<lambda>p. p \<le> 9) (concat (replicate n img ! i)))) i) [0..<n]
        = map (\<lambda>i. [i]) [0..<n]"
    using assms by (intro map_cong) auto
  show ?thesis
    unfolding where_le_9_def length_replicate eq by simp
qed

lemma take_rows_replicate: "take_rows (replicate n v) [0..<n] = Inr (replicate n v)"
proof -
  have "map (\<lambda>i. replicate n v ! i) [0..<n] = replicate n v"
    by (simp add: list_eq_iff_nth_eq)
  then show ?thesis
    by (simp add: take_rows_def list_all_iff)
qed

lemma rows_of_replicate:
  assumes "length row = c"
  shows "map (\<lambda>i. take c (drop (i * c) (concat (replicate n row)))) [0..<n] = replicate n row"
proof (induction n)
  case 0
  then show ?case by simp
next
  case (Suc n)
  have "map (\<lambda>i. take c (drop (i * c) (concat (replicate (Suc n) row)))) [0..<Suc n]
        = take c (row @ concat (replicate n row))
          # map (\<lambda>i. take c (drop (Suc i * c) (row @ concat (replicate n row)))) [0..<n]"
    by (simp add: upt_conv_Cons map_Suc_upt[symmetric] del: upt_Suc)
  also have "\<dots> = row # map (\<lambda>i. take c (drop (i * c) (concat (replicate n row)))) [0..<n]"
    using assms by (simp add: add.commute)
  finally show ?case using Suc by simp
qed

lemma reshape_replicate:
  assumes "length (concat img) = c"
  shows "reshape (replicate n img) n c = Inr (replicate n (concat img))"
  using rows_of_replicate[OF assms, of n] assms
  by (simp add: reshape_def length_concat sum_list_replicate comp_def map_replicate_const)

lemma cell_14_example:
  "cell_14 keep_order () (replicate 15000 one_dark_image) (replicate 15000 7)
       (replicate 15000 one_dark_image) (replicate 15000 3)
   = Inr (replicate 15000 (concat one_dark_image), replicate 15000 1,
          replicate 15000 (concat one_dark_image), replicate 15000 (- 1))"
  by (simp add: cell_14_def keep_order_def where_le_9_replicate[OF one_dark_image_count]
      take_rows_replicate reshape_replicate[OF one_dark_image_size] digit_to_spin_def)

lemma cell_21_example:
  "cell_21 keep_order () [[1], [2], [3]] [0, 1, 1] = Inr ([[1], [2]], [- 1, 1], [[3]], [1])"
  by (simp add: cell_21_def keep_order_def take_rows_def binary_to_spin_def upt_rec)

theorem labels_are_spins_witness:
  "cell_14 keep_order () (replicate 15000 one_dark_image) (replicate 15000 7)
       (replicate 15000 one_dark_image) (replicate 15000 3)
   = Inr (replicate 15000 (concat one_dark_image), replicate 15000 1,
          replicate 15000 (concat one_dark_image), replicate 15000 (- 1))
   \<and> set (replicate 15000 (1::int)) \<subseteq> {1, -1} \<and> set (replicate 15000 (- 1::int)) \<subseteq> {1, -1}
   \<and> set [0, 1, 1::int] \<subseteq> {0, 1}
   \<and> cell_21 keep_order () [[1], [2], [3]] [0, 1, 1] = Inr ([[1], [2]], [- 1, 1], [[3]], [1])
   \<and> set [- 1, 1::int] \<subseteq> {1, -1} \<and> set [1::int] \<subseteq> {1, -1}"
  using labels_are_spins[of keep_order "()" "replicate 15000 one_dark_image" "replicate 15000 7"
      "replicate 15000 one_dark_image" "replicate 15000 3"
      "replicate 15000 (concat one_dark_image)" "replicate 15000 1"
      "replicate 15000 (concat one_dark_image)" "replicate 15000 (- 1)"
      "[0, 1, 1]" keep_order "()" "[[1], [2], [3]]" "[[1], [2]]" "[- 1, 1]" "[[3]]" "[1]"]
    cell_14_example cell_21_example
  by simp

theorem rows_match_labels_witness:
  "mnist_images (replicate 15000 one_dark_image)
   \<and> cell_14 keep_order () (replicate 15000 one_dark_image) (replicate 15000 7)
       (replicate 15000 one_dark_image) (replicate 15000 3)
     = Inr (replicate 15000 (concat one_dark_image), replicate 15000 1,
            replicate 15000 (concat one_dark_image), replicate 15000 (- 1))
   \<and> length (replicate 15000 (concat one_dark_image)) = length (replicate 15000 (1::int))
   \<and> length (replicate 15000 (concat one_dark_image)) = length (replicate 15000 (- 1::int))
   \<and> length (replicate 15000 (concat one_dark_image)) = 15000
   \<and> cell_21 keep_order () [[1], [2], [3]] [0, 1, 1] = Inr ([[1], [2]], [- 1, 1], [[3]], [1])
   \<and> length [[1], [2::rat]] = length [- 1, 1::int] \<and> length [[3::rat]] = length [1::int]"
  using rows_match_labels[of "replicate 15000 one_dark_image" "replicate 15000 one_dark_image"
      keep_order "()" "replicate 15000 7" "replicate 15000 3"
      "replicate 15000 (concat one_dark_image)" "replicate 15000 1"
      "replicate 15000 (concat one_dark_image)" "replicate 15000 (- 1)"
      keep_order "()" "[[1], [2], [3]]" "[0, 1, 1]" "[[1], [2]]" "[- 1, 1]" "[[3]]" "[1]"]
    cell_14_example cell_21_example one_dark_image_size
  by (simp add: mnist_images_def list_all_iff)

text \<open>
  The cells do complete on the data they are written for: with a shuffle that permutes,
  cell 21 when there is a row of data for each target, cell 14 when the images have 28
  by 28 entries, there is a label for each image, and each of the two image arrays has
  at least 15000 entries that are at most 9.
\<close>

lemma where_le_9_range: "i \<in> set (where_le_9 x) \<Longrightarrow> i < length x"
  by (auto simp: where_le_9_def)

lemma shuffle_set:
  assumes "permutes_input shuffle"
  shows "set (fst (shuffle g xs)) = set xs" "length (fst (shuffle g xs)) = length xs"
proof -
  from assms have m: "mset (fst (shuffle g xs)) = mset xs"
    by (simp add: permutes_input_def)
  from m show "set (fst (shuffle g xs)) = set xs" by (rule mset_eq_setD)
  from m show "length (fst (shuffle g xs)) = length xs" by (rule mset_eq_length)
qed

lemma take_rows_in_range:
  assumes "\<forall>i\<in>set idx. i < length a"
  shows "take_rows a idx = Inr (map (\<lambda>i. a ! i) idx)"
  using assms by (simp add: take_rows_def list_all_iff)

lemma cell_21_completes:
  assumes "permutes_input shuffle" "length target \<le> length data"
  shows "\<exists>r. cell_21 shuffle g data target = Inr r"
proof -
  define p where "p = fst (shuffle g [0..<length target])"
  have r: "\<forall>i\<in>set p. i < length target"
    using shuffle_set(1)[OF assms(1), of g "[0..<length target]"] by (simp add: p_def)
  have t: "\<forall>i\<in>set (take k p). i < length target \<and> i < length data" for k
    using r assms(2) by (meson in_set_takeD less_le_trans)
  have d: "\<forall>i\<in>set (drop k p). i < length target \<and> i < length data" for k
    using r assms(2) by (meson in_set_dropD less_le_trans)
  have "take_rows data (take k p) = Inr (map (\<lambda>i. data ! i) (take k p))"
    "take_rows data (drop k p) = Inr (map (\<lambda>i. data ! i) (drop k p))"
    "take_rows target (take k p) = Inr (map (\<lambda>i. target ! i) (take k p))"
    "take_rows target (drop k p) = Inr (map (\<lambda>i. target ! i) (drop k p))" for k
    using t[of k] d[of k] by (simp_all add: take_rows_in_range)
  then show ?thesis
    by (simp add: cell_21_def Let_def split_beta p_def)
qed

lemma cell_14_completes:
  assumes "permutes_input shuffle" "mnist_images x_train" "mnist_images x_test"
    and "length x_train \<le> length y_train" "length x_test \<le> length y_test"
    and "15000 \<le> length (where_le_9 x_train)" "15000 \<le> length (where_le_9 x_test)"
  shows "\<exists>r. cell_14 shuffle g x_train y_train x_test y_test = Inr r"
proof -
  define p1 where "p1 = shuffle g (where_le_9 x_train)"
  define p2 where "p2 = shuffle (snd p1) (where_le_9 x_test)"
  define i1 where "i1 = take 15000 (fst p1)"
  define i2 where "i2 = take 15000 (fst p2)"
  have r1: "\<forall>i\<in>set i1. i < length x_train"
    using shuffle_set(1)[OF assms(1), of g "where_le_9 x_train"] where_le_9_range
    by (auto simp: i1_def p1_def dest!: in_set_takeD)
  have r2: "\<forall>i\<in>set i2. i < length x_test"
    using shuffle_set(1)[OF assms(1), of "snd p1" "where_le_9 x_test"] where_le_9_range
    by (auto simp: i2_def p2_def dest!: in_set_takeD)
  have r3: "\<forall>i\<in>set i1. i < length y_train" "\<forall>i\<in>set i2. i < length y_test"
    using r1 r2 assms(4,5) by (meson less_le_trans)+
  have l: "length i1 = 15000" "length i2 = 15000"
    using shuffle_set(2)[OF assms(1), of g "where_le_9 x_train"]
      shuffle_set(2)[OF assms(1), of "snd p1" "where_le_9 x_test"] assms(6,7)
    by (simp_all add: i1_def i2_def p1_def p2_def)
  have rows: "take_rows x_train i1 = Inr (map (\<lambda>i. x_train ! i) i1)"
    "take_rows x_test i2 = Inr (map (\<lambda>i. x_test ! i) i2)"
    "take_rows y_train i1 = Inr (map (\<lambda>i. y_train ! i) i1)"
    "take_rows y_test i2 = Inr (map (\<lambda>i. y_test ! i) i2)"
    using r1 r2 r3 by (simp_all add: take_rows_in_range)
  have "length (concat (map concat (map (\<lambda>i. x_train ! i) i1))) = 15000 * 784"
    "length (concat (map concat (map (\<lambda>i. x_test ! i) i2))) = 15000 * 784"
    using flat_length[of 784 x_train i1] flat_length[of 784 x_test i2] assms(2,3) r1 r2 l
    by (simp_all add: mnist_images_def)
  then have shape: "\<exists>M. reshape (map (\<lambda>i. x_train ! i) i1) 15000 784 = Inr M"
    "\<exists>M. reshape (map (\<lambda>i. x_test ! i) i2) 15000 784 = Inr M"
    by (simp_all add: reshape_def Let_def)
  have "cell_14 shuffle g x_train y_train x_test y_test =
     (case take_rows x_train i1 of Inl e \<Rightarrow> Inl e | Inr X_train \<Rightarrow>
     (case take_rows x_test i2 of Inl e \<Rightarrow> Inl e | Inr X_test \<Rightarrow>
     (case take_rows y_train i1 of Inl e \<Rightarrow> Inl e | Inr y_train_sel \<Rightarrow>
     (case take_rows y_test i2 of Inl e \<Rightarrow> Inl e | Inr y_test_sel \<Rightarrow>
     (case reshape X_train 15000 784 of Inl e \<Rightarrow> Inl e | Inr X_train \<Rightarrow>
     (case reshape X_test 15000 784 of Inl e \<Rightarrow> Inl e | Inr X_test \<Rightarrow>
      Inr (X_train, map digit_to_spin y_train_sel,
           X_test, map digit_to_spin y_test_sel)))))))"
    unfolding cell_14_def Let_def split_beta p1_def p2_def i1_def i2_def by (rule refl)
  with rows shape show ?thesis
    by auto
qed

section \<open>Runs: sequencing, schedules and errors\<close>

named_theorems call_defs
named_theorems block_defs

lemmas [call_defs] = call_DWaveSampler_def call_EmbeddingComposite_def call_Imputer_def
  call_StandardScaler_def call_Normalizer_def call_fit_transform_def
  call_AdaBoostClassifier_def call_WeakClassifiers_def call_RandomForestClassifier_def
  call_QBoostClassifier_def call_QboostPlus_def call_fit_def call_predict_def
  call_estimator_weights_def metric_def

lemmas [block_defs] = define_sampler_def print_sizes_def preprocessing_data_def
  adaboost_def decision_tree_def random_forest_def qboost_def qboost_plus_def
  comparison_table_def

lemma bnd_Inl: "snd m = Inl e \<Longrightarrow> bnd m f = (fst m, Inl e)"
  by (cases m) (simp add: bnd_def)

lemma bnd_Inr: "snd m = Inr a \<Longrightarrow> bnd m f = (fst m @ fst (f a), snd (f a))"
  by (cases m) (simp add: bnd_def split: prod.splits)

lemma bnd_returns:
  "snd (bnd m f) = Inr b \<longleftrightarrow> (\<exists>a. snd m = Inr a \<and> snd (f a) = Inr b)"
  by (cases "snd m") (auto simp: bnd_Inl bnd_Inr)

lemma bnd_Inr_simps:
  assumes "snd m = Inr a"
  shows "snd (bnd m f) = snd (f a)" "fst (bnd m f) = fst m @ fst (f a)"
    "calls (bnd m f) = calls m @ calls (f a)"
  using assms by (simp_all add: bnd_Inr calls_def)

lemma bnd_Inl_simps:
  assumes "snd m = Inl e"
  shows "snd (bnd m f) = Inl e" "fst (bnd m f) = fst m" "calls (bnd m f) = calls m"
  using assms by (simp_all add: bnd_Inl calls_def)

lemma run_simps:
  "fst (ret x) = []" "snd (ret x) = Inr x"
  "fst (print p) = [Event (C_print p) None]" "snd (print p) = Inr ()"
  "snd (lib_call c r) = r"
  "fst (lib_call c r) = [Event c (case r of Inl e \<Rightarrow> Some e | Inr a \<Rightarrow> None)]"
  by (simp_all add: ret_def print_def lib_call_def)

subsection \<open>Following a schedule\<close>

lemma follows_ret: "follows (ret x) []"
  by (simp add: follows_def calls_def run_simps)

lemma follows_print: "static (C_print p) = k \<Longrightarrow> follows (print p) [k]"
  by (simp add: follows_def calls_def run_simps)

lemma follows_bnd:
  assumes "follows m ks" "\<And>a. follows (f a) ks'"
  shows "follows (bnd m f) (ks @ ks')"
proof (cases "snd m")
  case (Inl e)
  with assms(1) show ?thesis
    by (auto simp: follows_def bnd_Inl_simps intro: prefix_prefix)
next
  case (Inr a)
  with assms(1) assms(2)[of a] show ?thesis
    by (simp add: follows_def bnd_Inr_simps)
qed

lemma follows_bnd_ret:
  assumes "follows m ks"
  shows "follows (bnd m (\<lambda>a. ret (g a))) ks"
  using follows_bnd[OF assms, of "\<lambda>a. ret (g a)" "[]"] by (simp add: follows_ret)

lemma follows_call:
  assumes "static c = k" "\<And>a. follows (f a) ks"
  shows "follows (bnd (lib_call c r) f) (k # ks)"
proof -
  have "follows (lib_call c r) [k]"
    using assms(1) by (simp add: follows_def calls_def run_simps)
  from follows_bnd[OF this assms(2)] show ?thesis by simp
qed

lemma follows_call_pair:
  assumes "static c = k" "\<And>a b. follows (f a b) ks"
  shows "follows (bnd (lib_call c r) (\<lambda>(a, b). f a b)) (k # ks)"
  using assms by (intro follows_call) auto

lemma follows_print_bnd:
  assumes "static (C_print p) = k" "follows (f ()) ks"
  shows "follows (bnd (print p) f) (k # ks)"
  using follows_bnd[OF follows_print[OF assms(1)], of f ks] assms(2) by simp

lemma follows_bnd_pair:
  assumes "follows m ks" "\<And>a b. follows (f a b) ks'"
  shows "follows (bnd m (\<lambda>(a, b). f a b)) (ks @ ks')"
  using assms by (intro follows_bnd) auto

lemma follows_bnd_triple:
  assumes "follows m ks" "\<And>a b c. follows (f a b c) ks'"
  shows "follows (bnd m (\<lambda>(a, b, c). f a b c)) (ks @ ks')"
  using assms by (intro follows_bnd) auto

lemmas follows_steps = follows_call_pair follows_call follows_print_bnd follows_print follows_ret

lemma define_sampler_follows: "follows (define_sampler lib) sampler_schedule"
  unfolding define_sampler_def call_defs sampler_schedule_def
  by (intro follows_steps) simp_all

lemma print_sizes_follows: "follows (print_sizes X_train X_test) sizes_schedule"
  unfolding print_sizes_def Let_def sizes_schedule_def
  by (intro follows_steps) simp_all

lemma preprocessing_data_follows:
  "follows (preprocessing_data lib X_train X_test) preprocessing_schedule"
  unfolding preprocessing_data_def call_defs preprocessing_schedule_def
  by (intro follows_steps) simp_all

lemma adaboost_follows:
  "follows (adaboost lib X_train y_train X_test y_test)
     (classifier_schedule ''Adaboost'' (C_AdaBoostClassifier NUM_WEAK_CLASSIFIERS))"
  unfolding adaboost_def call_defs classifier_schedule_def accuracy_schedule_def append.simps
  by (intro follows_steps) simp_all

lemma decision_tree_follows:
  "follows (decision_tree lib X_train y_train X_test y_test)
     (classifier_schedule ''Decision tree'' (C_WeakClassifiers NUM_WEAK_CLASSIFIERS TREE_DEPTH))"
  unfolding decision_tree_def call_defs classifier_schedule_def accuracy_schedule_def append.simps
  by (intro follows_steps) simp_all

lemma random_forest_follows:
  "follows (random_forest lib X_train y_train X_test y_test)
     (classifier_schedule ''Random Forest''
        (C_RandomForestClassifier NUM_WEAK_CLASSIFIERS TREE_DEPTH))"
  unfolding random_forest_def call_defs classifier_schedule_def accuracy_schedule_def append.simps
  by (intro follows_steps) simp_all

lemma qboost_follows:
  "follows (qboost lib emb_sampler lmd X_train y_train X_test y_test)
     (annealer_classifier_schedule ''QBoost'' (C_QBoostClassifier NUM_WEAK_CLASSIFIERS TREE_DEPTH))"
  unfolding qboost_def call_defs annealer_classifier_schedule_def accuracy_schedule_def append.simps
  by (intro follows_steps) simp_all

lemma qboost_plus_follows:
  "follows (qboost_plus lib emb_sampler lmd clf1 clf2 clf3 clf4 X_train y_train X_test y_test)
     (annealer_classifier_schedule ''QBoostPlus'' (C_QboostPlus [(), (), (), ()]))"
  unfolding qboost_plus_def call_defs annealer_classifier_schedule_def accuracy_schedule_def
    append.simps
  by (intro follows_steps) simp_all

lemma comparison_table_follows:
  "follows (comparison_table lib y_train y_test y_train1 y_test1 y_train2 y_test2
      y_train3 y_test3 y_train4 y_test4 y_train5 y_test5) table_schedule"
  unfolding comparison_table_def call_defs table_schedule_def append.simps
  by (intro follows_steps) simp_all

lemma train_model_follows:
  "follows (train_model lib X_train y_train X_test y_test lmd) train_model_schedule"
  unfolding train_model_def train_model_schedule_def
  apply (rule follows_bnd [OF define_sampler_follows])
  apply (rule follows_bnd [OF print_sizes_follows])
  apply (rule follows_bnd_pair [OF preprocessing_data_follows])
  apply (rule follows_bnd_triple [OF adaboost_follows])
  apply (rule follows_bnd_triple [OF decision_tree_follows])
  apply (rule follows_bnd_triple [OF random_forest_follows])
  apply (rule follows_bnd_triple [OF qboost_follows])
  apply (rule follows_bnd_triple [OF qboost_plus_follows])
  apply (rule follows_bnd_ret [OF comparison_table_follows])
  done

subsection \<open>Errors end the run\<close>

lemma uncaught_ret: "uncaught (ret x)"
  by (simp add: uncaught_def run_simps)

lemma uncaught_print: "uncaught (print p)"
  by (simp add: uncaught_def run_simps)

lemma uncaught_call: "uncaught (lib_call c r)"
  by (cases r) (simp_all add: uncaught_def run_simps)

lemma uncaught_bnd:
  assumes "uncaught m" "\<And>a. uncaught (f a)"
  shows "uncaught (bnd m f)"
proof (cases "snd m")
  case (Inl e)
  with assms(1) show ?thesis by (simp add: bnd_Inl_simps uncaught_def)
next
  case (Inr a)
  show ?thesis
  proof (cases "snd (f a)")
    case (Inl e)
    with assms(2)[of a] have "fst (f a) \<noteq> []" by (simp add: uncaught_def)
    with Inl \<open>snd m = Inr a\<close> assms(1) assms(2)[of a] show ?thesis
      by (simp add: bnd_Inr_simps uncaught_def butlast_append)
  next
    case (Inr b)
    with \<open>snd m = Inr a\<close> assms(1) assms(2)[of a] show ?thesis
      by (simp add: bnd_Inr_simps uncaught_def)
  qed
qed

lemmas uncaught_steps = uncaught_bnd uncaught_call uncaught_print uncaught_ret

lemma blocks_uncaught:
  "uncaught (define_sampler lib)"
  "uncaught (print_sizes X_train X_test :: ('o, unit) run)"
  "uncaught (preprocessing_data lib X_train X_test)"
  "uncaught (adaboost lib X_train y_train X_test y_test)"
  "uncaught (decision_tree lib X_train y_train X_test y_test)"
  "uncaught (random_forest lib X_train y_train X_test y_test)"
  "uncaught (qboost lib emb_sampler lmd X_train y_train X_test y_test)"
  "uncaught (qboost_plus lib emb_sampler lmd clf1 clf2 clf3 clf4 X_train y_train X_test y_test)"
  "uncaught (comparison_table lib y_train y_test y_train1 y_test1 y_train2 y_test2
      y_train3 y_test3 y_train4 y_test4 y_train5 y_test5)"
  unfolding block_defs call_defs Let_def
  by (auto intro!: uncaught_steps split: prod.splits)

lemma train_model_uncaught: "uncaught (train_model lib X_train y_train X_test y_test lmd)"
  unfolding train_model_def
  by (auto intro!: uncaught_bnd blocks_uncaught uncaught_ret split: prod.splits)

subsection \<open>Properties of every call\<close>

lemma all_calls_ret: "all_calls P (ret x)"
  by (simp add: all_calls_def calls_def run_simps)

lemma all_calls_print: "P (C_print p) \<Longrightarrow> all_calls P (print p)"
  by (simp add: all_calls_def calls_def run_simps)

lemma all_calls_call: "P c \<Longrightarrow> all_calls P (lib_call c r)"
  by (simp add: all_calls_def calls_def run_simps)

lemma all_calls_bnd:
  assumes "all_calls P m" "\<And>a. all_calls P (f a)"
  shows "all_calls P (bnd m f)"
proof (cases "snd m")
  case (Inl e)
  with assms(1) show ?thesis by (simp add: all_calls_def bnd_Inl_simps)
next
  case (Inr a)
  with assms(1) assms(2)[of a] show ?thesis by (simp add: all_calls_def bnd_Inr_simps)
qed

lemmas all_calls_steps = all_calls_bnd all_calls_call all_calls_print all_calls_ret

lemma filter_all_calls:
  "all_calls P m \<Longrightarrow> filter P (calls m) = calls m"
  "all_calls (\<lambda>c. \<not> P c) m \<Longrightarrow> filter P (calls m) = []"
  by (auto simp: all_calls_def list_all_iff filter_empty_conv)

section \<open>Runs that return\<close>

lemma returns_bnd_call:
  "snd (bnd (lib_call c r) f) = Inr b \<longleftrightarrow> (\<exists>a. r = Inr a \<and> snd (f a) = Inr b)"
  by (simp add: bnd_returns run_simps)

lemma returns_bnd_print: "snd (bnd (print p) f) = Inr b \<longleftrightarrow> snd (f ()) = Inr b"
  by (simp add: bnd_returns run_simps)

lemma calls_bnd_call: "r = Inr a \<Longrightarrow> calls (bnd (lib_call c r) f) = c # calls (f a)"
  by (simp add: bnd_Inr_simps run_simps calls_def)

lemma calls_bnd_print: "calls (bnd (print p) f) = C_print p # calls (f ())"
  by (simp add: bnd_Inr_simps run_simps calls_def)

lemma calls_simps:
  "calls (ret x) = []" "calls (print p) = [C_print p]" "calls (lib_call c r) = [c]"
  by (simp_all add: calls_def run_simps)

lemmas returning = returns_bnd_call returns_bnd_print calls_bnd_call calls_bnd_print
  calls_simps run_simps

lemma fit_results_append:
  "fit_results lib (xs @ ys) = fit_results lib xs @ fit_results lib ys"
  by (induction lib xs rule: fit_results.induct) simp_all

lemma predict_inputs_append:
  "predict_inputs (xs @ ys) = predict_inputs xs @ predict_inputs ys"
  by (induction xs rule: predict_inputs.induct) simp_all

lemma define_sampler_returns:
  assumes "snd (define_sampler lib) = Inr s"
  shows "fit_results lib (calls (define_sampler lib)) = []"
    "predict_inputs (calls (define_sampler lib)) = []"
  using assms unfolding define_sampler_def call_defs
  by (auto simp: returning)

lemma print_sizes_returns:
  "snd (print_sizes X_train X_test) = Inr ()"
  "fit_results lib (calls (print_sizes X_train X_test)) = []"
  "predict_inputs (calls (print_sizes X_train X_test)) = []"
  unfolding print_sizes_def Let_def
  by (simp_all add: returning)

lemma preprocessing_data_returns:
  assumes "snd (preprocessing_data lib X_train X_test) = Inr (A, B)"
  shows "fit_results lib (calls (preprocessing_data lib X_train X_test)) = []"
    "predict_inputs (calls (preprocessing_data lib X_train X_test)) = []"
  using assms unfolding preprocessing_data_def call_defs
  by (auto simp: returning)

lemma adaboost_returns:
  assumes "snd (adaboost lib X_train y_train X_test y_test) = Inr (clf, p, q)"
  shows "fit_results lib (calls (adaboost lib X_train y_train X_test y_test)) = [Inr clf]"
    "predict_inputs (calls (adaboost lib X_train y_train X_test y_test)) = [X_train, X_test]"
  using assms unfolding adaboost_def call_defs
  by (auto simp: returning)

lemma decision_tree_returns:
  assumes "snd (decision_tree lib X_train y_train X_test y_test) = Inr (clf, p, q)"
  shows "fit_results lib (calls (decision_tree lib X_train y_train X_test y_test)) = [Inr clf]"
    "predict_inputs (calls (decision_tree lib X_train y_train X_test y_test)) = [X_train, X_test]"
  using assms unfolding decision_tree_def call_defs
  by (auto simp: returning)

lemma random_forest_returns:
  assumes "snd (random_forest lib X_train y_train X_test y_test) = Inr (clf, p, q)"
  shows "fit_results lib (calls (random_forest lib X_train y_train X_test y_test)) = [Inr clf]"
    "predict_inputs (calls (random_forest lib X_train y_train X_test y_test)) = [X_train, X_test]"
  using assms unfolding random_forest_def call_defs
  by (auto simp: returning)

lemma qboost_returns:
  assumes "snd (qboost lib s lmd X_train y_train X_test y_test) = Inr (clf, p, q)"
  shows "fit_results lib (calls (qboost lib s lmd X_train y_train X_test y_test)) = [Inr clf]"
    "predict_inputs (calls (qboost lib s lmd X_train y_train X_test y_test)) = [X_train, X_test]"
  using assms unfolding qboost_def call_defs
  by (auto simp: returning)

lemma qboost_plus_returns:
  assumes "snd (qboost_plus lib s lmd c1 c2 c3 c4 X_train y_train X_test y_test) = Inr (clf, p, q)"
  shows "fit_results lib (calls (qboost_plus lib s lmd c1 c2 c3 c4 X_train y_train X_test y_test))
           = [Inr clf]"
    "predict_inputs (calls (qboost_plus lib s lmd c1 c2 c3 c4 X_train y_train X_test y_test))
           = [X_train, X_test]"
  using assms unfolding qboost_plus_def call_defs
  by (auto simp: returning)

lemma comparison_table_returns:
  assumes "snd (comparison_table lib y_train y_test y_train1 y_test1 y_train2 y_test2
      y_train3 y_test3 y_train4 y_test4 y_train5 y_test5) = Inr u"
  shows "fit_results lib (calls (comparison_table lib y_train y_test y_train1 y_test1
      y_train2 y_test2 y_train3 y_test3 y_train4 y_test4 y_train5 y_test5)) = []"
    "predict_inputs (calls (comparison_table lib y_train y_test y_train1 y_test1
      y_train2 y_test2 y_train3 y_test3 y_train4 y_test4 y_train5 y_test5)) = []"
  using assms unfolding comparison_table_def call_defs
  by (auto simp: returning)

lemma train_model_returns:
  assumes "snd (train_model lib X_train y_train X_test y_test lmd) = Inr clfs"
  shows "\<exists>A B. snd (preprocessing_data lib X_train X_test) = Inr (A, B)
           \<and> map Inr clfs = fit_results lib (calls (train_model lib X_train y_train X_test y_test lmd))
           \<and> length clfs = 5
           \<and> predict_inputs (calls (train_model lib X_train y_train X_test y_test lmd))
               = [A, B, A, B, A, B, A, B, A, B]"
  using assms unfolding train_model_def
  by (auto simp: bnd_returns bnd_Inr_simps run_simps calls_simps fit_results_append
      predict_inputs_append define_sampler_returns print_sizes_returns
      preprocessing_data_returns adaboost_returns decision_tree_returns random_forest_returns
      qboost_returns qboost_plus_returns comparison_table_returns)

section \<open>The calls of a run that returns\<close>

lemma define_sampler_run:
  assumes "snd (define_sampler lib) = Inr emb_sampler"
  shows "\<exists>dwave_sampler. DWaveSampler lib sapi_token url = Inr dwave_sampler
         \<and> EmbeddingComposite lib dwave_sampler = Inr emb_sampler
         \<and> calls (define_sampler lib)
           = [C_DWaveSampler sapi_token url, C_EmbeddingComposite dwave_sampler]"
  using assms unfolding define_sampler_def call_defs
  by (auto simp: returning)

lemma print_sizes_run:
  "calls (print_sizes X_train X_test)
     = [C_print (Items [Str (nl @ replicate 38 (CHR ''=''))]),
        C_print (Fmt ''Train size: %d, Test size: %d''
                   [Num (length X_train), Num (length X_test)]),
        C_print (Items [Str ''Num weak classifiers:'', Num NUM_WEAK_CLASSIFIERS])]"
  unfolding print_sizes_def Let_def
  by (simp add: returning)

lemma preprocessing_data_run:
  assumes "snd (preprocessing_data lib X_train X_test) = Inr (A, B)"
  shows "\<exists>imputer scaler normalizer scaler1 A0 normalizer1 scaler2 B0 normalizer2.
     Imputer lib = Inr imputer
     \<and> StandardScaler lib = Inr scaler \<and> Normalizer lib = Inr normalizer
     \<and> fit_transform lib scaler X_train = Inr (scaler1, A0)
     \<and> fit_transform lib normalizer A0 = Inr (normalizer1, A)
     \<and> fit_transform lib scaler1 X_test = Inr (scaler2, B0)
     \<and> fit_transform lib normalizer1 B0 = Inr (normalizer2, B)
     \<and> calls (preprocessing_data lib X_train X_test)
       = [C_Imputer, C_StandardScaler, C_Normalizer,
          C_fit_transform scaler X_train, C_fit_transform normalizer A0,
          C_fit_transform scaler1 X_test, C_fit_transform normalizer1 B0]"
  using assms unfolding preprocessing_data_def call_defs
  by (auto simp: returning)

lemma adaboost_run:
  assumes "snd (adaboost lib X_train y_train X_test y_test) = Inr (clf, p, q)"
  shows "\<exists>c. classifier_answers lib (AdaBoostClassifier lib NUM_WEAK_CLASSIFIERS) None
             X_train y_train X_test y_test c
         \<and> fitted_clf c = clf \<and> train_pred c = p \<and> test_pred c = q
         \<and> calls (adaboost lib X_train y_train X_test y_test)
           = classifier_calls ''Adaboost'' (C_AdaBoostClassifier NUM_WEAK_CLASSIFIERS)
             X_train y_train X_test y_test c"
proof -
  from assms obtain c0 a b where
    "AdaBoostClassifier lib NUM_WEAK_CLASSIFIERS = Inr c0"
    "fit lib c0 X_train y_train None = Inr clf"
    "predict lib clf X_train = Inr p" "predict lib clf X_test = Inr q"
    "accuracy_score lib y_train p = Inr a" "accuracy_score lib y_test q = Inr b"
    "calls (adaboost lib X_train y_train X_test y_test)
      = [C_print (Items [Str (nl @ ''Adaboost'')]), C_AdaBoostClassifier NUM_WEAK_CLASSIFIERS,
         C_fit c0 X_train y_train None,
         C_predict clf X_train, C_predict clf X_test,
         C_accuracy_score y_train p, C_print (Fmt ''accu (train): %5.2f'' [Flt a]),
         C_accuracy_score y_test q, C_print (Fmt ''accu (test): %5.2f'' [Flt b])]"
    unfolding adaboost_def call_defs by (auto simp: returning)
  then show ?thesis
    by (intro exI[of _ "\<lparr>constructed = c0, fitted_clf = clf, train_pred = p, test_pred = q,
                          train_accu = a, test_accu = b\<rparr>"])
       (simp add: classifier_answers_def classifier_calls_def accuracy_calls_def)
qed

lemma decision_tree_run:
  assumes "snd (decision_tree lib X_train y_train X_test y_test) = Inr (clf, p, q)"
  shows "\<exists>c. classifier_answers lib (WeakClassifiers lib NUM_WEAK_CLASSIFIERS TREE_DEPTH) None
             X_train y_train X_test y_test c
         \<and> fitted_clf c = clf \<and> train_pred c = p \<and> test_pred c = q
         \<and> calls (decision_tree lib X_train y_train X_test y_test)
           = classifier_calls ''Decision tree'' (C_WeakClassifiers NUM_WEAK_CLASSIFIERS TREE_DEPTH)
             X_train y_train X_test y_test c"
proof -
  from assms obtain c0 a b where
    "WeakClassifiers lib NUM_WEAK_CLASSIFIERS TREE_DEPTH = Inr c0"
    "fit lib c0 X_train y_train None = Inr clf"
    "predict lib clf X_train = Inr p" "predict lib clf X_test = Inr q"
    "accuracy_score lib y_train p = Inr a" "accuracy_score lib y_test q = Inr b"
    "calls (decision_tree lib X_train y_train X_test y_test)
      = [C_print (Items [Str (nl @ ''Decision tree'')]), C_WeakClassifiers NUM_WEAK_CLASSIFIERS TREE_DEPTH,
         C_fit c0 X_train y_train None,
         C_predict clf X_train, C_predict clf X_test,
         C_accuracy_score y_train p, C_print (Fmt ''accu (train): %5.2f'' [Flt a]),
         C_accuracy_score y_test q, C_print (Fmt ''accu (test): %5.2f'' [Flt b])]"
    unfolding decision_tree_def call_defs by (auto simp: returning)
  then show ?thesis
    by (intro exI[of _ "\<lparr>constructed = c0, fitted_clf = clf, train_pred = p, test_pred = q,
                          train_accu = a, test_accu = b\<rparr>"])
       (simp add: classifier_answers_def classifier_calls_def accuracy_calls_def)
qed

lemma random_forest_run:
  assumes "snd (random_forest lib X_train y_train X_test y_test) = Inr (clf, p, q)"
  shows "\<exists>c. classifier_answers lib (RandomForestClassifier lib NUM_WEAK_CLASSIFIERS TREE_DEPTH) None
             X_train y_train X_test y_test c
         \<and> fitted_clf c = clf \<and> train_pred c = p \<and> test_pred c = q
         \<and> calls (random_forest lib X_train y_train X_test y_test)
           = classifier_calls ''Random Forest'' (C_RandomForestClassifier NUM_WEAK_CLASSIFIERS TREE_DEPTH)
             X_train y_train X_test y_test c"
proof -
  from assms obtain c0 a b where
    "RandomForestClassifier lib NUM_WEAK_CLASSIFIERS TREE_DEPTH = Inr c0"
    "fit lib c0 X_train y_train None = Inr clf"
    "predict lib clf X_train = Inr p" "predict lib clf X_test = Inr q"
    "accuracy_score lib y_train p = Inr a" "accuracy_score lib y_test q = Inr b"
    "calls (random_forest lib X_train y_train X_test y_test)
      = [C_print (Items [Str (nl @ ''Random Forest'')]), C_RandomForestClassifier NUM_WEAK_CLASSIFIERS TREE_DEPTH,
         C_fit c0 X_train y_train None,
         C_predict clf X_train, C_predict clf X_test,
         C_accuracy_score y_train p, C_print (Fmt ''accu (train): %5.2f'' [Flt a]),
         C_accuracy_score y_test q, C_print (Fmt ''accu (test): %5.2f'' [Flt b])]"
    unfolding random_forest_def call_defs by (auto simp: returning)
  then show ?thesis
    by (intro exI[of _ "\<lparr>constructed = c0, fitted_clf = clf, train_pred = p, test_pred = q,
                          train_accu = a, test_accu = b\<rparr>"])
       (simp add: classifier_answers_def classifier_calls_def accuracy_calls_def)
qed

lemma qboost_run:
  assumes "snd (qboost lib emb_sampler lmd X_train y_train X_test y_test) = Inr (clf, p, q)"
  shows "\<exists>c w. classifier_answers lib (QBoostClassifier lib NUM_WEAK_CLASSIFIERS TREE_DEPTH) (Some (emb_sampler, lmd, DW_PARAMS))
             X_train y_train X_test y_test c
         \<and> fitted_clf c = clf \<and> train_pred c = p \<and> test_pred c = q
         \<and> estimator_weights lib clf = Inr w
         \<and> calls (qboost lib emb_sampler lmd X_train y_train X_test y_test)
           = annealer_classifier_calls ''QBoost'' (C_QBoostClassifier NUM_WEAK_CLASSIFIERS TREE_DEPTH) emb_sampler lmd
             X_train y_train X_test y_test c w"
proof -
  from assms obtain c0 a b w where
    "QBoostClassifier lib NUM_WEAK_CLASSIFIERS TREE_DEPTH = Inr c0"
    "fit lib c0 X_train y_train (Some (emb_sampler, lmd, DW_PARAMS)) = Inr clf"
    "predict lib clf X_train = Inr p" "predict lib clf X_test = Inr q"
    "estimator_weights lib clf = Inr w"
    "accuracy_score lib y_train p = Inr a" "accuracy_score lib y_test q = Inr b"
    "calls (qboost lib emb_sampler lmd X_train y_train X_test y_test)
      = [C_print (Items [Str (nl @ ''QBoost'')]), C_QBoostClassifier NUM_WEAK_CLASSIFIERS TREE_DEPTH,
         C_fit c0 X_train y_train (Some (emb_sampler, lmd, DW_PARAMS)),
         C_predict clf X_train, C_predict clf X_test,
         C_estimator_weights clf, C_print (Items [Obj w]),
         C_accuracy_score y_train p, C_print (Fmt ''accu (train): %5.2f'' [Flt a]),
         C_accuracy_score y_test q, C_print (Fmt ''accu (test): %5.2f'' [Flt b])]"
    unfolding qboost_def call_defs by (auto simp: returning)
  then show ?thesis
    by (intro exI[of _ "\<lparr>constructed = c0, fitted_clf = clf, train_pred = p, test_pred = q,
                          train_accu = a, test_accu = b\<rparr>"] exI[of _ w])
       (simp add: classifier_answers_def annealer_classifier_calls_def accuracy_calls_def)
qed

lemma qboost_plus_run:
  assumes "snd (qboost_plus lib emb_sampler lmd clf1 clf2 clf3 clf4 X_train y_train X_test y_test) = Inr (clf, p, q)"
  shows "\<exists>c w. classifier_answers lib (QboostPlus lib [clf1, clf2, clf3, clf4]) (Some (emb_sampler, lmd, DW_PARAMS))
             X_train y_train X_test y_test c
         \<and> fitted_clf c = clf \<and> train_pred c = p \<and> test_pred c = q
         \<and> estimator_weights lib clf = Inr w
         \<and> calls (qboost_plus lib emb_sampler lmd clf1 clf2 clf3 clf4 X_train y_train X_test y_test)
           = annealer_classifier_calls ''QBoostPlus'' (C_QboostPlus [clf1, clf2, clf3, clf4]) emb_sampler lmd
             X_train y_train X_test y_test c w"
proof -
  from assms obtain c0 a b w where
    "QboostPlus lib [clf1, clf2, clf3, clf4] = Inr c0"
    "fit lib c0 X_train y_train (Some (emb_sampler, lmd, DW_PARAMS)) = Inr clf"
    "predict lib clf X_train = Inr p" "predict lib clf X_test = Inr q"
    "estimator_weights lib clf = Inr w"
    "accuracy_score lib y_train p = Inr a" "accuracy_score lib y_test q = Inr b"
    "calls (qboost_plus lib emb_sampler lmd clf1 clf2 clf3 clf4 X_train y_train X_test y_test)
      = [C_print (Items [Str (nl @ ''QBoostPlus'')]), C_QboostPlus [clf1, clf2, clf3, clf4],
         C_fit c0 X_train y_train (Some (emb_sampler, lmd, DW_PARAMS)),
         C_predict clf X_train, C_predict clf X_test,
         C_estimator_weights clf, C_print (Items [Obj w]),
         C_accuracy_score y_train p, C_print (Fmt ''accu (train): %5.2f'' [Flt a]),
         C_accuracy_score y_test q, C_print (Fmt ''accu (test): %5.2f'' [Flt b])]"
    unfolding qboost_plus_def call_defs by (auto simp: returning)
  then show ?thesis
    by (intro exI[of _ "\<lparr>constructed = c0, fitted_clf = clf, train_pred = p, test_pred = q,
                          train_accu = a, test_accu = b\<rparr>"] exI[of _ w])
       (simp add: classifier_answers_def annealer_classifier_calls_def accuracy_calls_def)
qed

lemma comparison_table_run:
  assumes "accuracy_score lib y_train (train_pred c1) = Inr (train_accu c1)"
    "accuracy_score lib y_train (train_pred c2) = Inr (train_accu c2)"
    "accuracy_score lib y_train (train_pred c3) = Inr (train_accu c3)"
    "accuracy_score lib y_train (train_pred c4) = Inr (train_accu c4)"
    "accuracy_score lib y_train (train_pred c5) = Inr (train_accu c5)"
    "accuracy_score lib y_test (test_pred c1) = Inr (test_accu c1)"
    "accuracy_score lib y_test (test_pred c2) = Inr (test_accu c2)"
    "accuracy_score lib y_test (test_pred c3) = Inr (test_accu c3)"
    "accuracy_score lib y_test (test_pred c4) = Inr (test_accu c4)"
    "accuracy_score lib y_test (test_pred c5) = Inr (test_accu c5)"
  shows "calls (comparison_table lib y_train y_test (train_pred c1) (test_pred c1)
           (train_pred c2) (test_pred c2) (train_pred c3) (test_pred c3)
           (train_pred c4) (test_pred c4) (train_pred c5) (test_pred c5))
         = table_calls y_train y_test [c1, c2, c3, c4, c5]"
  using assms unfolding comparison_table_def call_defs table_calls_def
  by (simp add: returning)

lemma train_model_blocks:
  assumes "snd (train_model lib X_train y_train X_test y_test lmd) = Inr clfs"
  shows "\<exists>emb A B clf1 p1 q1 clf2 p2 q2 clf3 p3 q3 clf4 p4 q4 clf5 p5 q5.
     snd (define_sampler lib) = Inr emb
     \<and> snd (preprocessing_data lib X_train X_test) = Inr (A, B)
     \<and> snd (adaboost lib A y_train B y_test) = Inr (clf1, p1, q1)
     \<and> snd (decision_tree lib A y_train B y_test) = Inr (clf2, p2, q2)
     \<and> snd (random_forest lib A y_train B y_test) = Inr (clf3, p3, q3)
     \<and> snd (qboost lib emb lmd A y_train B y_test) = Inr (clf4, p4, q4)
     \<and> snd (qboost_plus lib emb lmd clf1 clf2 clf3 clf4 A y_train B y_test) = Inr (clf5, p5, q5)
     \<and> clfs = [clf1, clf2, clf3, clf4, clf5]
     \<and> calls (train_model lib X_train y_train X_test y_test lmd)
       = calls (define_sampler lib) @ calls (print_sizes X_train X_test)
         @ calls (preprocessing_data lib X_train X_test)
         @ calls (adaboost lib A y_train B y_test)
         @ calls (decision_tree lib A y_train B y_test)
         @ calls (random_forest lib A y_train B y_test)
         @ calls (qboost lib emb lmd A y_train B y_test)
         @ calls (qboost_plus lib emb lmd clf1 clf2 clf3 clf4 A y_train B y_test)
         @ calls (comparison_table lib y_train y_test p1 q1 p2 q2 p3 q3 p4 q4 p5 q5)"
  using assms unfolding train_model_def
  by (auto simp: bnd_returns bnd_Inr_simps run_simps calls_simps print_sizes_returns)

lemma train_model_run:
  assumes "snd (train_model lib X_train y_train X_test y_test lmd) = Inr clfs"
  shows "\<exists>v. library_answers lib X_train y_train X_test y_test lmd v
     \<and> calls (train_model lib X_train y_train X_test y_test lmd)
       = train_model_calls X_train y_train X_test y_test lmd v
     \<and> clfs = map fitted_clf [ans_clf1 v, ans_clf2 v, ans_clf3 v, ans_clf4 v, ans_clf5 v]
     \<and> snd (preprocessing_data lib X_train X_test) = Inr (ans_X_train v, ans_X_test v)"
proof -
  from train_model_blocks[OF assms]
  obtain emb A B clf1 p1 q1 clf2 p2 q2 clf3 p3 q3 clf4 p4 q4 clf5 p5 q5 where
    s: "snd (define_sampler lib) = Inr emb"
    and pp: "snd (preprocessing_data lib X_train X_test) = Inr (A, B)"
    and b1: "snd (adaboost lib A y_train B y_test) = Inr (clf1, p1, q1)"
    and b2: "snd (decision_tree lib A y_train B y_test) = Inr (clf2, p2, q2)"
    and b3: "snd (random_forest lib A y_train B y_test) = Inr (clf3, p3, q3)"
    and b4: "snd (qboost lib emb lmd A y_train B y_test) = Inr (clf4, p4, q4)"
    and b5: "snd (qboost_plus lib emb lmd clf1 clf2 clf3 clf4 A y_train B y_test)
               = Inr (clf5, p5, q5)"
    and r: "clfs = [clf1, clf2, clf3, clf4, clf5]"
    and cs: "calls (train_model lib X_train y_train X_test y_test lmd)
       = calls (define_sampler lib) @ calls (print_sizes X_train X_test)
         @ calls (preprocessing_data lib X_train X_test)
         @ calls (adaboost lib A y_train B y_test)
         @ calls (decision_tree lib A y_train B y_test)
         @ calls (random_forest lib A y_train B y_test)
         @ calls (qboost lib emb lmd A y_train B y_test)
         @ calls (qboost_plus lib emb lmd clf1 clf2 clf3 clf4 A y_train B y_test)
         @ calls (comparison_table lib y_train y_test p1 q1 p2 q2 p3 q3 p4 q4 p5 q5)"
    by blast
  from define_sampler_run[OF s] obtain dwave where
    d: "DWaveSampler lib sapi_token url = Inr dwave" "EmbeddingComposite lib dwave = Inr emb"
    and dc: "calls (define_sampler lib) = [C_DWaveSampler sapi_token url, C_EmbeddingComposite dwave]"
    by blast
  from preprocessing_data_run[OF pp]
  obtain imputer scaler normalizer scaler1 A0 normalizer1 scaler2 B0 normalizer2 where
    p: "Imputer lib = Inr imputer" "StandardScaler lib = Inr scaler"
       "Normalizer lib = Inr normalizer"
       "fit_transform lib scaler X_train = Inr (scaler1, A0)"
       "fit_transform lib normalizer A0 = Inr (normalizer1, A)"
       "fit_transform lib scaler1 X_test = Inr (scaler2, B0)"
       "fit_transform lib normalizer1 B0 = Inr (normalizer2, B)"
    and pc: "calls (preprocessing_data lib X_train X_test)
       = [C_Imputer, C_StandardScaler, C_Normalizer,
          C_fit_transform scaler X_train, C_fit_transform normalizer A0,
          C_fit_transform scaler1 X_test, C_fit_transform normalizer1 B0]"
    by blast
  from adaboost_run[OF b1] obtain c1 where
    a1: "classifier_answers lib (AdaBoostClassifier lib NUM_WEAK_CLASSIFIERS) None
           A y_train B y_test c1"
    and e1: "fitted_clf c1 = clf1" "train_pred c1 = p1" "test_pred c1 = q1"
    and k1: "calls (adaboost lib A y_train B y_test)
       = classifier_calls ''Adaboost'' (C_AdaBoostClassifier NUM_WEAK_CLASSIFIERS)
           A y_train B y_test c1"
    by blast
  from decision_tree_run[OF b2] obtain c2 where
    a2: "classifier_answers lib (WeakClassifiers lib NUM_WEAK_CLASSIFIERS TREE_DEPTH) None
           A y_train B y_test c2"
    and e2: "fitted_clf c2 = clf2" "train_pred c2 = p2" "test_pred c2 = q2"
    and k2: "calls (decision_tree lib A y_train B y_test)
       = classifier_calls ''Decision tree'' (C_WeakClassifiers NUM_WEAK_CLASSIFIERS TREE_DEPTH)
           A y_train B y_test c2"
    by blast
  from random_forest_run[OF b3] obtain c3 where
    a3: "classifier_answers lib (RandomForestClassifier lib NUM_WEAK_CLASSIFIERS TREE_DEPTH) None
           A y_train B y_test c3"
    and e3: "fitted_clf c3 = clf3" "train_pred c3 = p3" "test_pred c3 = q3"
    and k3: "calls (random_forest lib A y_train B y_test)
       = classifier_calls ''Random Forest''
           (C_RandomForestClassifier NUM_WEAK_CLASSIFIERS TREE_DEPTH) A y_train B y_test c3"
    by blast
  from qboost_run[OF b4] obtain c4 w4 where
    a4: "classifier_answers lib (QBoostClassifier lib NUM_WEAK_CLASSIFIERS TREE_DEPTH)
           (Some (emb, lmd, DW_PARAMS)) A y_train B y_test c4"
    and e4: "fitted_clf c4 = clf4" "train_pred c4 = p4" "test_pred c4 = q4"
    and w4: "estimator_weights lib clf4 = Inr w4"
    and k4: "calls (qboost lib emb lmd A y_train B y_test)
       = annealer_classifier_calls ''QBoost''
           (C_QBoostClassifier NUM_WEAK_CLASSIFIERS TREE_DEPTH) emb lmd A y_train B y_test c4 w4"
    by blast
  from qboost_plus_run[OF b5] obtain c5 w5 where
    a5: "classifier_answers lib (QboostPlus lib [clf1, clf2, clf3, clf4])
           (Some (emb, lmd, DW_PARAMS)) A y_train B y_test c5"
    and e5: "fitted_clf c5 = clf5" "train_pred c5 = p5" "test_pred c5 = q5"
    and w5: "estimator_weights lib clf5 = Inr w5"
    and k5: "calls (qboost_plus lib emb lmd clf1 clf2 clf3 clf4 A y_train B y_test)
       = annealer_classifier_calls ''QBoostPlus'' (C_QboostPlus [clf1, clf2, clf3, clf4])
           emb lmd A y_train B y_test c5 w5"
    by blast
  have kt: "calls (comparison_table lib y_train y_test p1 q1 p2 q2 p3 q3 p4 q4 p5 q5)
       = table_calls y_train y_test [c1, c2, c3, c4, c5]"
    using comparison_table_run[of lib y_train c1 c2 c3 c4 c5 y_test] a1 a2 a3 a4 a5
    by (simp add: classifier_answers_def e1 e2 e3 e4 e5)
  define v where "v = \<lparr>ans_dwave_sampler = dwave, ans_emb_sampler = emb, ans_imputer = imputer,
    ans_scaler = scaler, ans_normalizer = normalizer, ans_scaler_train = scaler1,
    ans_X_train_scaled = A0, ans_normalizer_train = normalizer1, ans_X_train = A,
    ans_scaler_test = scaler2, ans_X_test_scaled = B0, ans_normalizer_test = normalizer2,
    ans_X_test = B, ans_clf1 = c1, ans_clf2 = c2, ans_clf3 = c3, ans_clf4 = c4, ans_clf5 = c5,
    ans_weights4 = w4, ans_weights5 = w5\<rparr>"
  have "library_answers lib X_train y_train X_test y_test lmd v"
    unfolding library_answers_def v_def
    using d p a1 a2 a3 a4 a5 w4 w5 by (simp add: e1 e2 e3 e4 e5)
  moreover have "calls (train_model lib X_train y_train X_test y_test lmd)
       = train_model_calls X_train y_train X_test y_test lmd v"
    unfolding cs dc pc k1 k2 k3 k4 k5 kt print_sizes_run train_model_calls_def v_def
    by (simp add: e1 e2 e3 e4 e5)
  moreover have "clfs = map fitted_clf [ans_clf1 v, ans_clf2 v, ans_clf3 v, ans_clf4 v, ans_clf5 v]"
    by (simp add: r v_def e1 e2 e3 e4 e5)
  moreover have "snd (preprocessing_data lib X_train X_test) = Inr (ans_X_train v, ans_X_test v)"
    by (simp add: pp v_def)
  ultimately show ?thesis by blast
qed

section \<open>The calls of \<open>train_model\<close>\<close>

lemmas schedule_defs = train_model_schedule_def sampler_schedule_def sizes_schedule_def
  preprocessing_schedule_def classifier_schedule_def annealer_classifier_schedule_def
  accuracy_schedule_def table_schedule_def

lemma static_preserves:
  "is_fit (static c) = is_fit c"
  "is_sampler_fit (static c) = is_sampler_fit c"
  "is_fit_transform (static c) = is_fit_transform c"
  "is_DWaveSampler (static c) = is_DWaveSampler c"
  "prints_format s (static c) = prints_format s c"
proof -
  show "is_fit (static c) = is_fit c" by (cases c) simp_all
  show "is_fit_transform (static c) = is_fit_transform c" by (cases c) simp_all
  show "is_DWaveSampler (static c) = is_DWaveSampler c" by (cases c) simp_all
  show "is_sampler_fit (static c) = is_sampler_fit c"
  proof (cases c)
    case (C_fit clf X y sampling)
    then show ?thesis by (cases sampling) simp_all
  qed simp_all
  show "prints_format s (static c) = prints_format s c"
  proof (cases c)
    case (C_print p)
    then show ?thesis by (cases p) simp_all
  qed simp_all
qed

lemma filter_static:
  assumes "\<And>c. P (static c) = Q c"
  shows "filter P (map static cs) = map static (filter Q cs)"
  by (simp add: filter_map comp_def assms)

lemma count_static:
  assumes "\<And>c. P (static c) = Q c"
  shows "length (filter Q cs) = length (filter P (map static cs))"
  by (simp add: filter_static[of P Q, OF assms])

lemma count_prefix: "prefix xs ys \<Longrightarrow> length (filter P xs) \<le> length (filter P ys)"
  by (auto simp: prefix_def)

lemma schedule_counts:
  "length (filter is_fit train_model_schedule) = 5"
  "length (filter is_sampler_fit train_model_schedule) = 2"
  "length (filter (prints_format ''accu (train): %5.2f'') train_model_schedule) = 5"
  "length (filter (prints_format ''accu (test): %5.2f'') train_model_schedule) = 5"
  "length (filter is_fit_transform (takeWhile (\<lambda>c. \<not> is_fit c) train_model_schedule)) = 4"
  "filter is_fit_transform (dropWhile (\<lambda>c. \<not> is_fit c) train_model_schedule) = []"
  by (simp_all add: schedule_defs table_row_def tab_def)

lemma toy_run:
  "snd (train_model toy_library [[1, 2], [3, 4]] [1, - 1] [[5, 6]] [1] 1)
     = Inr [101, 201, 301, 401, 501]"
  by (simp add: train_model_def block_defs call_defs bnd_def lib_call_def print_def ret_def
      toy_library_def first_entry_def)


lemmas described_calls = train_model_calls_def classifier_calls_def
  annealer_classifier_calls_def accuracy_calls_def table_calls_def


lemma toy_answers:
  "library_answers toy_library [[1, 2], [3, 4]] [1, - 1] [[5, 6]] [1] 1
     \<lparr>ans_dwave_sampler = 1, ans_emb_sampler = 2, ans_imputer = 3, ans_scaler = 4,
      ans_normalizer = 5, ans_scaler_train = 14, ans_X_train_scaled = [[0, 1], [2, 3]],
      ans_normalizer_train = 15, ans_X_train = [[0, 2], [4, 6]], ans_scaler_test = 24,
      ans_X_test_scaled = [[0, 1]], ans_normalizer_test = 25, ans_X_test = [[0, 2]],
      ans_clf1 = \<lparr>constructed = 100, fitted_clf = 101, train_pred = [101, 101],
                  test_pred = [101], train_accu = 0, test_accu = 0\<rparr>,
      ans_clf2 = \<lparr>constructed = 200, fitted_clf = 201, train_pred = [201, 201],
                  test_pred = [201], train_accu = 0, test_accu = 0\<rparr>,
      ans_clf3 = \<lparr>constructed = 300, fitted_clf = 301, train_pred = [301, 301],
                  test_pred = [301], train_accu = 0, test_accu = 0\<rparr>,
      ans_clf4 = \<lparr>constructed = 400, fitted_clf = 401, train_pred = [401, 401],
                  test_pred = [401], train_accu = 0, test_accu = 0\<rparr>,
      ans_clf5 = \<lparr>constructed = 500, fitted_clf = 501, train_pred = [501, 501],
                  test_pred = [501], train_accu = 0, test_accu = 0\<rparr>,
      ans_weights4 = 1401, ans_weights5 = 1501\<rparr>"
  by (simp add: library_answers_def classifier_answers_def toy_library_def first_entry_def
      accuracy_fraction_def)



text \<open>
  C3. Neither \<open>metric\<close> nor \<open>train_model\<close> handles an error: in every run of theirs a
  library call that raises is the last call made, nothing is called again after it, and
  its error is what the function raises; and they raise nothing of their own.
\<close>

theorem errors_are_uncaught:
  "uncaught (train_model lib X_train y_train X_test y_test lmd)
   \<and> uncaught (metric lib y y_pred)"
  by (simp add: train_model_uncaught metric_def uncaught_call)

lemma offline_run:
  "snd (train_model offline_library [[1, 2], [3, 4]] [1, - 1] [[5, 6]] [1] 1) = Inl NetworkFailure"
  "last (fst (train_model offline_library [[1, 2], [3, 4]] [1, - 1] [[5, 6]] [1] 1))
     = Event (C_fit 400 [[0, 2], [4, 6]] [1, - 1] (Some (2, 1, DW_PARAMS))) (Some NetworkFailure)"
  by (simp_all add: train_model_def block_defs call_defs bnd_def lib_call_def print_def ret_def
      toy_library_def offline_library_def first_entry_def DW_PARAMS_def NUM_READS_def)

theorem errors_are_uncaught_witness:
  "uncaught (train_model offline_library [[1, 2], [3, 4]] [1, - 1] [[5, 6]] [1] 1)
   \<and> snd (train_model offline_library [[1, 2], [3, 4]] [1, - 1] [[5, 6]] [1] 1)
       = Inl NetworkFailure
   \<and> raised (last (fst (train_model offline_library [[1, 2], [3, 4]] [1, - 1] [[5, 6]] [1] 1)))
       = Some NetworkFailure
   \<and> uncaught (metric offline_library [1, - 1] [1])
   \<and> snd (metric offline_library [1, - 1] [1]) = Inl MalformedData"
  using errors_are_uncaught[of offline_library "[[1, 2], [3, 4]]" "[1, - 1]" "[[5, 6]]" "[1]" 1
      "[1, - 1]" "[1]"]
  by (simp add: offline_run)
     (simp add: metric_def lib_call_def offline_library_def toy_library_def)

text \<open>
  C1, as the code has it. A run of \<open>train_model\<close> that returns has made exactly the
  calls \<open>train_model_calls\<close> describes from the libraries' answers. It has applied
  \<^verbatim>\<open>fit_transform\<close> four times, all before the first \<^verbatim>\<open>fit\<close>: the scaler on \<open>X_train\<close>, the
  normalizer on the result, the scaler on \<open>X_test\<close>, the normalizer on the result. It has
  fitted five classifiers on the preprocessed training matrix and \<open>y_train\<close>, the
  objects that \<^verbatim>\<open>AdaBoostClassifier\<close>, \<^verbatim>\<open>WeakClassifiers\<close>, \<^verbatim>\<open>RandomForestClassifier\<close>,
  \<^verbatim>\<open>QBoostClassifier\<close> and \<^verbatim>\<open>QboostPlus\<close> returned, the last two and only they with the
  sampler that \<^verbatim>\<open>EmbeddingComposite\<close> returned. It has printed, for each of the five,
  the accuracy of its prediction on the training matrix and of its prediction on the
  test matrix, and it returns the five fitted objects. A run that raises has fitted at
  most five.
\<close>

theorem train_model_fits_five:
  "length (filter is_fit (calls (train_model lib X_train y_train X_test y_test lmd))) \<le> 5
   \<and> (snd (train_model lib X_train y_train X_test y_test lmd) = Inr clfs \<longrightarrow>
        (\<exists>v. library_answers lib X_train y_train X_test y_test lmd v
           \<and> calls (train_model lib X_train y_train X_test y_test lmd)
               = train_model_calls X_train y_train X_test y_test lmd v
           \<and> clfs = map fitted_clf
                      [ans_clf1 v, ans_clf2 v, ans_clf3 v, ans_clf4 v, ans_clf5 v]
           \<and> filter is_fit_transform (calls (train_model lib X_train y_train X_test y_test lmd))
               = [C_fit_transform (ans_scaler v) X_train,
                  C_fit_transform (ans_normalizer v) (ans_X_train_scaled v),
                  C_fit_transform (ans_scaler_train v) X_test,
                  C_fit_transform (ans_normalizer_train v) (ans_X_test_scaled v)]
           \<and> filter is_fit (calls (train_model lib X_train y_train X_test y_test lmd))
               = [C_fit (constructed (ans_clf1 v)) (ans_X_train v) y_train None,
                  C_fit (constructed (ans_clf2 v)) (ans_X_train v) y_train None,
                  C_fit (constructed (ans_clf3 v)) (ans_X_train v) y_train None,
                  C_fit (constructed (ans_clf4 v)) (ans_X_train v) y_train
                    (Some (ans_emb_sampler v, lmd, DW_PARAMS)),
                  C_fit (constructed (ans_clf5 v)) (ans_X_train v) y_train
                    (Some (ans_emb_sampler v, lmd, DW_PARAMS))]
           \<and> filter (prints_format ''accu (train): %5.2f'')
                (calls (train_model lib X_train y_train X_test y_test lmd))
               = map (\<lambda>c. C_print (Fmt ''accu (train): %5.2f'' [Flt (train_accu c)]))
                   [ans_clf1 v, ans_clf2 v, ans_clf3 v, ans_clf4 v, ans_clf5 v]
           \<and> filter (prints_format ''accu (test): %5.2f'')
                (calls (train_model lib X_train y_train X_test y_test lmd))
               = map (\<lambda>c. C_print (Fmt ''accu (test): %5.2f'' [Flt (test_accu c)]))
                   [ans_clf1 v, ans_clf2 v, ans_clf3 v, ans_clf4 v, ans_clf5 v])
        \<and> length (filter is_fit (calls (train_model lib X_train y_train X_test y_test lmd))) = 5
        \<and> length (filter is_sampler_fit
                    (calls (train_model lib X_train y_train X_test y_test lmd))) = 2
        \<and> length (filter is_fit_transform (takeWhile (\<lambda>c. \<not> is_fit c)
                    (calls (train_model lib X_train y_train X_test y_test lmd)))) = 4
        \<and> filter is_fit_transform (dropWhile (\<lambda>c. \<not> is_fit c)
                    (calls (train_model lib X_train y_train X_test y_test lmd))) = [])"
proof -
  define cs where "cs = calls (train_model lib X_train y_train X_test y_test lmd)"
  have p: "prefix (map static cs) train_model_schedule"
    using train_model_follows[of lib X_train y_train X_test y_test lmd]
    by (simp add: follows_def cs_def)
  have bound: "length (filter is_fit cs) \<le> 5"
    using count_prefix[OF p, of is_fit] count_static[of is_fit is_fit cs]
    by (simp add: static_preserves schedule_counts)
  have returned: "(\<exists>v. library_answers lib X_train y_train X_test y_test lmd v
           \<and> cs = train_model_calls X_train y_train X_test y_test lmd v
           \<and> clfs = map fitted_clf
                      [ans_clf1 v, ans_clf2 v, ans_clf3 v, ans_clf4 v, ans_clf5 v]
           \<and> filter is_fit_transform cs
               = [C_fit_transform (ans_scaler v) X_train,
                  C_fit_transform (ans_normalizer v) (ans_X_train_scaled v),
                  C_fit_transform (ans_scaler_train v) X_test,
                  C_fit_transform (ans_normalizer_train v) (ans_X_test_scaled v)]
           \<and> filter is_fit cs
               = [C_fit (constructed (ans_clf1 v)) (ans_X_train v) y_train None,
                  C_fit (constructed (ans_clf2 v)) (ans_X_train v) y_train None,
                  C_fit (constructed (ans_clf3 v)) (ans_X_train v) y_train None,
                  C_fit (constructed (ans_clf4 v)) (ans_X_train v) y_train
                    (Some (ans_emb_sampler v, lmd, DW_PARAMS)),
                  C_fit (constructed (ans_clf5 v)) (ans_X_train v) y_train
                    (Some (ans_emb_sampler v, lmd, DW_PARAMS))]
           \<and> filter (prints_format ''accu (train): %5.2f'') cs
               = map (\<lambda>c. C_print (Fmt ''accu (train): %5.2f'' [Flt (train_accu c)]))
                   [ans_clf1 v, ans_clf2 v, ans_clf3 v, ans_clf4 v, ans_clf5 v]
           \<and> filter (prints_format ''accu (test): %5.2f'') cs
               = map (\<lambda>c. C_print (Fmt ''accu (test): %5.2f'' [Flt (test_accu c)]))
                   [ans_clf1 v, ans_clf2 v, ans_clf3 v, ans_clf4 v, ans_clf5 v])
        \<and> length (filter is_fit cs) = 5
        \<and> length (filter is_sampler_fit cs) = 2
        \<and> length (filter is_fit_transform (takeWhile (\<lambda>c. \<not> is_fit c) cs)) = 4
        \<and> filter is_fit_transform (dropWhile (\<lambda>c. \<not> is_fit c) cs) = []"
    if "snd (train_model lib X_train y_train X_test y_test lmd) = Inr clfs"
  proof -
    from train_model_run[OF that] obtain v where
      a: "library_answers lib X_train y_train X_test y_test lmd v"
      and c: "cs = train_model_calls X_train y_train X_test y_test lmd v"
      and r: "clfs = map fitted_clf [ans_clf1 v, ans_clf2 v, ans_clf3 v, ans_clf4 v, ans_clf5 v]"
      unfolding cs_def by blast
    have "filter is_fit_transform cs
               = [C_fit_transform (ans_scaler v) X_train,
                  C_fit_transform (ans_normalizer v) (ans_X_train_scaled v),
                  C_fit_transform (ans_scaler_train v) X_test,
                  C_fit_transform (ans_normalizer_train v) (ans_X_test_scaled v)]"
      "filter is_fit cs
               = [C_fit (constructed (ans_clf1 v)) (ans_X_train v) y_train None,
                  C_fit (constructed (ans_clf2 v)) (ans_X_train v) y_train None,
                  C_fit (constructed (ans_clf3 v)) (ans_X_train v) y_train None,
                  C_fit (constructed (ans_clf4 v)) (ans_X_train v) y_train
                    (Some (ans_emb_sampler v, lmd, DW_PARAMS)),
                  C_fit (constructed (ans_clf5 v)) (ans_X_train v) y_train
                    (Some (ans_emb_sampler v, lmd, DW_PARAMS))]"
      "filter (prints_format ''accu (train): %5.2f'') cs
               = map (\<lambda>c. C_print (Fmt ''accu (train): %5.2f'' [Flt (train_accu c)]))
                   [ans_clf1 v, ans_clf2 v, ans_clf3 v, ans_clf4 v, ans_clf5 v]"
      "filter (prints_format ''accu (test): %5.2f'') cs
               = map (\<lambda>c. C_print (Fmt ''accu (test): %5.2f'' [Flt (test_accu c)]))
                   [ans_clf1 v, ans_clf2 v, ans_clf3 v, ans_clf4 v, ans_clf5 v]"
      "length (filter is_fit cs) = 5"
      "length (filter is_sampler_fit cs) = 2"
      "length (filter is_fit_transform (takeWhile (\<lambda>c. \<not> is_fit c) cs)) = 4"
      "filter is_fit_transform (dropWhile (\<lambda>c. \<not> is_fit c) cs) = []"
      unfolding c by (simp_all add: described_calls table_row_def tab_def)
    with a c r show ?thesis
      by (intro conjI exI[of _ v]) assumption+
  qed
  show ?thesis
  proof (intro conjI impI)
    show "length (filter is_fit (calls (train_model lib X_train y_train X_test y_test lmd))) \<le> 5"
      using bound by (simp add: cs_def)
  qed (use returned in \<open>simp_all add: cs_def\<close>)
qed

theorem train_model_fits_five_witness:
  "snd (train_model toy_library [[1, 2], [3, 4]] [1, - 1] [[5, 6]] [1] 1)
     = Inr [101, 201, 301, 401, 501]
   \<and> (\<exists>v. library_answers toy_library [[1, 2], [3, 4]] [1, - 1] [[5, 6]] [1] 1 v
           \<and> calls (train_model toy_library [[1, 2], [3, 4]] [1, - 1] [[5, 6]] [1] 1)
               = train_model_calls [[1, 2], [3, 4]] [1, - 1] [[5, 6]] [1] 1 v
           \<and> [101, 201, 301, 401, 501] = map fitted_clf
                      [ans_clf1 v, ans_clf2 v, ans_clf3 v, ans_clf4 v, ans_clf5 v]
           \<and> filter is_fit_transform (calls (train_model toy_library [[1, 2], [3, 4]] [1, - 1] [[5, 6]] [1] 1))
               = [C_fit_transform (ans_scaler v) [[1, 2], [3, 4]],
                  C_fit_transform (ans_normalizer v) (ans_X_train_scaled v),
                  C_fit_transform (ans_scaler_train v) [[5, 6]],
                  C_fit_transform (ans_normalizer_train v) (ans_X_test_scaled v)]
           \<and> filter is_fit (calls (train_model toy_library [[1, 2], [3, 4]] [1, - 1] [[5, 6]] [1] 1))
               = [C_fit (constructed (ans_clf1 v)) (ans_X_train v) [1, - 1] None,
                  C_fit (constructed (ans_clf2 v)) (ans_X_train v) [1, - 1] None,
                  C_fit (constructed (ans_clf3 v)) (ans_X_train v) [1, - 1] None,
                  C_fit (constructed (ans_clf4 v)) (ans_X_train v) [1, - 1]
                    (Some (ans_emb_sampler v, 1, DW_PARAMS)),
                  C_fit (constructed (ans_clf5 v)) (ans_X_train v) [1, - 1]
                    (Some (ans_emb_sampler v, 1, DW_PARAMS))]
           \<and> filter (prints_format ''accu (train): %5.2f'')
                (calls (train_model toy_library [[1, 2], [3, 4]] [1, - 1] [[5, 6]] [1] 1))
               = map (\<lambda>c. C_print (Fmt ''accu (train): %5.2f'' [Flt (train_accu c)]))
                   [ans_clf1 v, ans_clf2 v, ans_clf3 v, ans_clf4 v, ans_clf5 v]
           \<and> filter (prints_format ''accu (test): %5.2f'')
                (calls (train_model toy_library [[1, 2], [3, 4]] [1, - 1] [[5, 6]] [1] 1))
               = map (\<lambda>c. C_print (Fmt ''accu (test): %5.2f'' [Flt (test_accu c)]))
                   [ans_clf1 v, ans_clf2 v, ans_clf3 v, ans_clf4 v, ans_clf5 v])
        \<and> length (filter is_fit (calls (train_model toy_library [[1, 2], [3, 4]] [1, - 1] [[5, 6]] [1] 1))) = 5
        \<and> length (filter is_sampler_fit
                    (calls (train_model toy_library [[1, 2], [3, 4]] [1, - 1] [[5, 6]] [1] 1))) = 2
        \<and> length (filter is_fit_transform (takeWhile (\<lambda>c. \<not> is_fit c)
                    (calls (train_model toy_library [[1, 2], [3, 4]] [1, - 1] [[5, 6]] [1] 1)))) = 4
        \<and> filter is_fit_transform (dropWhile (\<lambda>c. \<not> is_fit c)
                    (calls (train_model toy_library [[1, 2], [3, 4]] [1, - 1] [[5, 6]] [1] 1))) = []"
proof -
  note t = toy_run
  note th = train_model_fits_five[of toy_library "[[1, 2], [3, 4]]" "[1, - 1]" "[[5, 6]]" "[1]" 1
      "[101, 201, 301, 401, 501]"]
  from th[THEN conjunct2, THEN mp, OF t] t
  show ?thesis by (rule conjI[rotated])
qed

text \<open>
  C1, as it is stated, fails: on a library in which every call succeeds the run fits
  five classifiers, not four, and two of the fits, not one, are given the sampler.
\<close>

theorem four_classifiers_counterexample:
  "length (filter is_fit
     (calls (train_model toy_library [[1, 2], [3, 4]] [1, - 1] [[5, 6]] [1] 1))) \<noteq> 4
   \<and> length (filter is_sampler_fit
     (calls (train_model toy_library [[1, 2], [3, 4]] [1, - 1] [[5, 6]] [1] 1))) \<noteq> 1"
  by (simp add: train_model_def block_defs call_defs bnd_def lib_call_def print_def ret_def
      toy_library_def calls_def first_entry_def)

section \<open>The accuracy, the credential and the returned list\<close>

lemma agreeing_positions:
  assumes "length y = length y_pred"
  shows "length (filter (\<lambda>(a, b). a = b) (zip y y_pred))
         = card {i. i < length y \<and> y ! i = y_pred ! i}"
proof -
  have "{i. i < length (zip y y_pred) \<and> (\<lambda>(a, b). a = b) (zip y y_pred ! i)}
        = {i. i < length y \<and> y ! i = y_pred ! i}"
    using assms by auto
  then show ?thesis
    by (simp add: length_filter_conv_card)
qed

text \<open>
  C2, as the code has it. \<open>metric\<close> makes one call, \<^verbatim>\<open>accuracy_score(y, y_pred)\<close>, and its
  outcome is that call's outcome, value or error, unchanged. With a library whose
  \<^verbatim>\<open>accuracy_score\<close> is the fraction of agreeing positions on vectors of the same,
  positive length, \<open>metric\<close> returns, for two such vectors, the number of positions at
  which they agree divided by their length. On the empty pair the outcome is whatever
  \<^verbatim>\<open>accuracy_score\<close> gives there.
\<close>

theorem metric_is_accuracy_score:
  "snd (metric lib y y_pred) = accuracy_score lib y y_pred
   \<and> calls (metric lib y y_pred) = [C_accuracy_score y y_pred]
   \<and> (scores_accuracy lib \<and> length y = length y_pred \<and> y \<noteq> []
        \<longrightarrow> snd (metric lib y y_pred) = Inr (accuracy_fraction y y_pred)
          \<and> snd (metric lib y y_pred)
              = Inr (of_nat (card {i. i < length y \<and> y ! i = y_pred ! i}) / of_nat (length y)))"
proof (intro conjI impI)
  show "snd (metric lib y y_pred) = accuracy_score lib y y_pred"
    by (simp add: metric_def run_simps)
  show "calls (metric lib y y_pred) = [C_accuracy_score y y_pred]"
    by (simp add: metric_def calls_def run_simps)
next
  assume h: "scores_accuracy lib \<and> length y = length y_pred \<and> y \<noteq> []"
  then show f: "snd (metric lib y y_pred) = Inr (accuracy_fraction y y_pred)"
    by (simp add: metric_def run_simps scores_accuracy_def)
  from h have "accuracy_fraction y y_pred
        = of_nat (card {i. i < length y \<and> y ! i = y_pred ! i}) / of_nat (length y)"
    by (simp add: accuracy_fraction_def agreeing_positions)
  with f show "snd (metric lib y y_pred)
        = Inr (of_nat (card {i. i < length y \<and> y ! i = y_pred ! i}) / of_nat (length y))"
    by simp
qed

theorem metric_is_accuracy_score_witness:
  "scores_accuracy toy_library \<and> length [1, - 1, 1, 1 :: int] = length [1, 1, 1, - 1 :: int]
   \<and> [1, - 1, 1, 1 :: int] \<noteq> []
   \<and> snd (metric toy_library [1, - 1, 1, 1] [1, 1, 1, - 1]) = Inr (1 / 2)"
proof -
  have s: "scores_accuracy toy_library"
    by (simp add: scores_accuracy_def toy_library_def)
  have f: "accuracy_fraction [1, - 1, 1, 1] [1, 1, 1, - 1] = 1 / 2"
    by (simp add: accuracy_fraction_def)
  have "scores_accuracy toy_library
        \<and> length [1, - 1, 1, 1 :: int] = length [1, 1, 1, - 1 :: int] \<and> [1, - 1, 1, 1 :: int] \<noteq> []"
    using s by simp
  with metric_is_accuracy_score[of toy_library "[1, - 1, 1, 1]" "[1, 1, 1, - 1]"]
  have "snd (metric toy_library [1, - 1, 1, 1] [1, 1, 1, - 1])
        = Inr (accuracy_fraction [1, - 1, 1, 1] [1, 1, 1, - 1])"
    by blast
  then show ?thesis
    unfolding f using s by simp
qed

text \<open>
  C2, as it is stated for every pair of vectors of equal length, fails on the empty
  pair: there are no positions, so there is no fraction of them, and scikit-learn's
  \<^verbatim>\<open>accuracy_score\<close> gives the mean of an empty array, a NaN, or raises. In a library
  that returns the fraction on every non-empty pair and raises on the empty one,
  \<open>metric\<close> raises too.
\<close>

theorem metric_empty_counterexample:
  "scores_accuracy strict_library
   \<and> length ([] :: int list) = length ([] :: int list)
   \<and> snd (metric strict_library [] []) = Inl ValueError
   \<and> snd (metric strict_library [] []) \<noteq> Inr (accuracy_fraction [] [])"
  by (simp add: scores_accuracy_def strict_library_def toy_library_def metric_def run_simps)

lemma blocks_no_sampler:
  "all_calls (\<lambda>c. \<not> is_DWaveSampler c) (print_sizes X_train X_test :: ('o, unit) run)"
  "all_calls (\<lambda>c. \<not> is_DWaveSampler c) (preprocessing_data lib X_train X_test)"
  "all_calls (\<lambda>c. \<not> is_DWaveSampler c) (adaboost lib X_train y_train X_test y_test)"
  "all_calls (\<lambda>c. \<not> is_DWaveSampler c) (decision_tree lib X_train y_train X_test y_test)"
  "all_calls (\<lambda>c. \<not> is_DWaveSampler c) (random_forest lib X_train y_train X_test y_test)"
  "all_calls (\<lambda>c. \<not> is_DWaveSampler c)
     (qboost lib emb_sampler lmd X_train y_train X_test y_test)"
  "all_calls (\<lambda>c. \<not> is_DWaveSampler c)
     (qboost_plus lib emb_sampler lmd clf1 clf2 clf3 clf4 X_train y_train X_test y_test)"
  "all_calls (\<lambda>c. \<not> is_DWaveSampler c)
     (comparison_table lib y_train y_test y_train1 y_test1 y_train2 y_test2
        y_train3 y_test3 y_train4 y_test4 y_train5 y_test5)"
  unfolding block_defs call_defs Let_def
  by (auto intro!: all_calls_steps split: prod.splits)

lemma define_sampler_calls:
  "calls (define_sampler lib) = [C_DWaveSampler sapi_token url]
   \<or> (\<exists>s. DWaveSampler lib sapi_token url = Inr s
        \<and> calls (define_sampler lib) = [C_DWaveSampler sapi_token url, C_EmbeddingComposite s])"
proof (cases "DWaveSampler lib sapi_token url")
  case (Inl e)
  then show ?thesis
    by (simp add: define_sampler_def call_defs bnd_Inl_simps run_simps calls_def)
next
  case (Inr s)
  then have "calls (define_sampler lib) = [C_DWaveSampler sapi_token url, C_EmbeddingComposite s]"
    by (cases "EmbeddingComposite lib s")
       (simp_all add: define_sampler_def call_defs bnd_Inl_simps bnd_Inr_simps run_simps calls_def)
  with Inr show ?thesis by simp
qed

text \<open>
  C8. In every run of \<open>train_model\<close>, whatever the arguments and whatever the libraries
  answer, the first call constructs the sampler with the token \<open>sapi_token\<close> of cell 4
  and the endpoint \<open>url\<close> of cell 8, and no other call constructs a sampler: the
  credential is the constant, no parameter of \<open>train_model\<close> reaches it.
\<close>

theorem sampler_token_is_hardcoded:
  "filter is_DWaveSampler (calls (train_model lib X_train y_train X_test y_test lmd))
     = [C_DWaveSampler sapi_token url]
   \<and> hd (calls (train_model lib X_train y_train X_test y_test lmd))
     = C_DWaveSampler sapi_token url
   \<and> sapi_token = ''CDL8-df1de1d5d76560ee73a82ffca3833a1a444536d3''"
proof -
  let ?rest = "\<lambda>emb_sampler.
     bnd (print_sizes X_train X_test) (\<lambda>_.
     bnd (preprocessing_data lib X_train X_test) (\<lambda>(X_train, X_test).
     bnd (adaboost lib X_train y_train X_test y_test) (\<lambda>(clf1, y_train1, y_test1).
     bnd (decision_tree lib X_train y_train X_test y_test) (\<lambda>(clf2, y_train2, y_test2).
     bnd (random_forest lib X_train y_train X_test y_test) (\<lambda>(clf3, y_train3, y_test3).
     bnd (qboost lib emb_sampler lmd X_train y_train X_test y_test) (\<lambda>(clf4, y_train4, y_test4).
     bnd (qboost_plus lib emb_sampler lmd clf1 clf2 clf3 clf4 X_train y_train X_test y_test) (\<lambda>(clf5, y_train5, y_test5).
     bnd (comparison_table lib y_train y_test y_train1 y_test1 y_train2 y_test2
            y_train3 y_test3 y_train4 y_test4 y_train5 y_test5) (\<lambda>_.
     ret [clf1, clf2, clf3, clf4, clf5]))))))))"
  have tm: "train_model lib X_train y_train X_test y_test lmd = bnd (define_sampler lib) ?rest"
    by (simp add: train_model_def)
  have rest: "all_calls (\<lambda>c. \<not> is_DWaveSampler c) (?rest s)" for s
    by (auto intro!: all_calls_bnd all_calls_ret blocks_no_sampler split: prod.splits)
  have first: "filter is_DWaveSampler (calls (define_sampler lib)) = [C_DWaveSampler sapi_token url]"
    "hd (calls (define_sampler lib)) = C_DWaveSampler sapi_token url"
    "calls (define_sampler lib) \<noteq> []"
    using define_sampler_calls[of lib] by auto
  have "filter is_DWaveSampler (calls (bnd (define_sampler lib) ?rest))
          = [C_DWaveSampler sapi_token url]
        \<and> hd (calls (bnd (define_sampler lib) ?rest)) = C_DWaveSampler sapi_token url"
  proof (cases "snd (define_sampler lib)")
    case (Inl e)
    then show ?thesis using first by (simp add: bnd_Inl_simps)
  next
    case (Inr s)
    then show ?thesis using first filter_all_calls(2)[OF rest[of s]]
      by (simp add: bnd_Inr_simps)
  qed
  then show ?thesis
    unfolding tm by (simp add: sapi_token_def)
qed

text \<open>
  C6. A run of \<open>train_model\<close> in which no library call raises returns, and what a run
  returns is a list of five objects: the objects that its five \<^verbatim>\<open>fit\<close> calls returned,
  in the order of the calls. The list is the whole returned value.
\<close>

theorem train_model_returns_fitted_classifiers:
  "(list_all (\<lambda>ev. raised ev = None) (fst (train_model lib X_train y_train X_test y_test lmd))
      \<longrightarrow> \<not> isl (snd (train_model lib X_train y_train X_test y_test lmd)))
   \<and> (\<forall>clfs. snd (train_model lib X_train y_train X_test y_test lmd) = Inr clfs
        \<longrightarrow> map Inr clfs
              = fit_results lib (calls (train_model lib X_train y_train X_test y_test lmd))
          \<and> length clfs = 5)"
proof (intro conjI impI allI)
  assume quiet: "list_all (\<lambda>ev. raised ev = None)
    (fst (train_model lib X_train y_train X_test y_test lmd))"
  show "\<not> isl (snd (train_model lib X_train y_train X_test y_test lmd))"
  proof (cases "snd (train_model lib X_train y_train X_test y_test lmd)")
    case (Inl e)
    with train_model_uncaught[of lib X_train y_train X_test y_test lmd]
    have "fst (train_model lib X_train y_train X_test y_test lmd) \<noteq> []"
      "raised (last (fst (train_model lib X_train y_train X_test y_test lmd))) = Some e"
      by (simp_all add: uncaught_def)
    with quiet show ?thesis
      by (auto simp: list_all_iff dest: last_in_set)
  next
    case (Inr clfs)
    then show ?thesis by simp
  qed
next
  fix clfs
  assume "snd (train_model lib X_train y_train X_test y_test lmd) = Inr clfs"
  from train_model_returns[OF this]
  show "map Inr clfs = fit_results lib (calls (train_model lib X_train y_train X_test y_test lmd))"
    "length clfs = 5"
    by blast+
qed

lemma toy_run_quiet:
  "list_all (\<lambda>ev. raised ev = None)
     (fst (train_model toy_library [[1, 2], [3, 4]] [1, - 1] [[5, 6]] [1] 1))"
  by (simp add: train_model_def block_defs call_defs bnd_def lib_call_def print_def ret_def
      toy_library_def first_entry_def)

theorem train_model_returns_fitted_classifiers_witness:
  "list_all (\<lambda>ev. raised ev = None)
     (fst (train_model toy_library [[1, 2], [3, 4]] [1, - 1] [[5, 6]] [1] 1))
   \<and> snd (train_model toy_library [[1, 2], [3, 4]] [1, - 1] [[5, 6]] [1] 1)
       = Inr [101, 201, 301, 401, 501]
   \<and> fit_results toy_library
       (calls (train_model toy_library [[1, 2], [3, 4]] [1, - 1] [[5, 6]] [1] 1))
       = [Inr 101, Inr 201, Inr 301, Inr 401, Inr 501]"
  using train_model_returns_fitted_classifiers
    [of toy_library "[[1, 2], [3, 4]]" "[1, - 1]" "[[5, 6]]" "[1]" 1]
    toy_run_quiet toy_run
  by simp

section \<open>The preprocessing\<close>

lemma refits_returns:
  assumes "refits lib" "fit_transform lib t X0 = Inr (t1, M0)"
    and "fit_transform lib t1 X = Inr (t2, M)"
  shows "\<exists>t3. fit_transform lib t X = Inr (t3, M)"
proof -
  from assms(1,2)
  have "map_sum id snd (fit_transform lib t1 X) = map_sum id snd (fit_transform lib t X)"
    unfolding refits_def by blast
  with assms(3) show ?thesis
    by (cases "fit_transform lib t X") auto
qed

lemma preprocessing_data_steps:
  assumes "snd (preprocessing_data lib X_train X_test) = Inr (A, B)"
  shows "\<exists>scaler normalizer scaler1 A0 normalizer1 scaler2 B0 normalizer2.
     StandardScaler lib = Inr scaler \<and> Normalizer lib = Inr normalizer
     \<and> fit_transform lib scaler X_train = Inr (scaler1, A0)
     \<and> fit_transform lib normalizer A0 = Inr (normalizer1, A)
     \<and> fit_transform lib scaler1 X_test = Inr (scaler2, B0)
     \<and> fit_transform lib normalizer1 B0 = Inr (normalizer2, B)"
  using assms unfolding preprocessing_data_def call_defs
  by (auto simp: returning)

lemma preprocessing_data_refits:
  assumes "refits lib" "snd (preprocessing_data lib X_train X_test) = Inr (A, B)"
  shows "refit_on_test lib X_test = Inr B"
proof -
  from preprocessing_data_steps[OF assms(2)]
  obtain scaler normalizer scaler1 A0 normalizer1 scaler2 B0 normalizer2 where
    c: "StandardScaler lib = Inr scaler" "Normalizer lib = Inr normalizer"
    and st: "fit_transform lib scaler X_train = Inr (scaler1, A0)"
    and nt: "fit_transform lib normalizer A0 = Inr (normalizer1, A)"
    and s: "fit_transform lib scaler1 X_test = Inr (scaler2, B0)"
    and n: "fit_transform lib normalizer1 B0 = Inr (normalizer2, B)"
    by blast
  from refits_returns[OF assms(1) st s] obtain s' where
    s': "fit_transform lib scaler X_test = Inr (s', B0)" by blast
  from refits_returns[OF assms(1) nt n] obtain n' where
    n': "fit_transform lib normalizer B0 = Inr (n', B)" by blast
  show ?thesis
    by (simp add: refit_on_test_def c s' n')
qed

text \<open>
  C9. With a library whose \<^verbatim>\<open>fit_transform\<close> fits anew, that is, gives on a
  transformer that was fitted before what it gives on the same transformer before that
  fit, the preprocessed test matrix
  of \<open>train_model\<close> is what a scaler and a normalizer fitted on \<open>X_test\<close> alone give: two
  runs of the preprocessing that agree on \<open>X_test\<close> have the same preprocessed test
  matrix whatever their training data, and in a run of \<open>train_model\<close> that returns this
  is the matrix on which every classifier predicts for the test set.
\<close>

theorem test_preprocessing_ignores_training_data:
  assumes "refits lib"
  shows "(snd (preprocessing_data lib X_train X_test) = Inr (A, B)
            \<longrightarrow> refit_on_test lib X_test = Inr B)
       \<and> (snd (preprocessing_data lib X_train X_test) = Inr (A, B)
          \<and> snd (preprocessing_data lib X_train' X_test) = Inr (A', B')
            \<longrightarrow> B = B')
       \<and> (snd (train_model lib X_train y_train X_test y_test lmd) = Inr clfs
            \<longrightarrow> (\<exists>P Q. refit_on_test lib X_test = Inr Q
                  \<and> predict_inputs (calls (train_model lib X_train y_train X_test y_test lmd))
                      = [P, Q, P, Q, P, Q, P, Q, P, Q]))"
proof (intro conjI impI)
  assume "snd (preprocessing_data lib X_train X_test) = Inr (A, B)"
  from preprocessing_data_refits[OF assms this]
  show "refit_on_test lib X_test = Inr B" .
next
  assume "snd (preprocessing_data lib X_train X_test) = Inr (A, B)
          \<and> snd (preprocessing_data lib X_train' X_test) = Inr (A', B')"
  then have "refit_on_test lib X_test = Inr B" "refit_on_test lib X_test = Inr B'"
    using preprocessing_data_refits[OF assms] by blast+
  then show "B = B'" by simp
next
  assume "snd (train_model lib X_train y_train X_test y_test lmd) = Inr clfs"
  from train_model_returns[OF this] obtain P Q where
    "snd (preprocessing_data lib X_train X_test) = Inr (P, Q)"
    "predict_inputs (calls (train_model lib X_train y_train X_test y_test lmd))
       = [P, Q, P, Q, P, Q, P, Q, P, Q]"
    by blast
  with preprocessing_data_refits[OF assms]
  show "\<exists>P Q. refit_on_test lib X_test = Inr Q
          \<and> predict_inputs (calls (train_model lib X_train y_train X_test y_test lmd))
              = [P, Q, P, Q, P, Q, P, Q, P, Q]"
    by blast
qed

lemma toy_preprocessing:
  "snd (preprocessing_data toy_library [[1, 2], [3, 4]] [[5, 6]])
     = Inr ([[0, 2], [4, 6]], [[0, 2]])"
  "snd (preprocessing_data toy_library [[9, 9]] [[5, 6]]) = Inr ([[0, 0]], [[0, 2]])"
  by (simp_all add: preprocessing_data_def call_defs bnd_def lib_call_def ret_def toy_library_def
      first_entry_def)

lemma toy_refits: "refits toy_library"
  by (simp add: refits_def toy_library_def split: if_splits)

theorem test_preprocessing_ignores_training_data_witness:
  "refits toy_library
   \<and> snd (preprocessing_data toy_library [[1, 2], [3, 4]] [[5, 6]])
       = Inr ([[0, 2], [4, 6]], [[0, 2]])
   \<and> snd (preprocessing_data toy_library [[9, 9]] [[5, 6]]) = Inr ([[0, 0]], [[0, 2]])
   \<and> refit_on_test toy_library [[5, 6]] = Inr [[0, 2]]
   \<and> fit_transform toy_library 4 [[5, 6]] \<noteq> fit_transform toy_library 5 [[5, 6]]"
proof -
  from test_preprocessing_ignores_training_data[OF toy_refits, of "[[1, 2], [3, 4]]" "[[5, 6]]"
      "[[0, 2], [4, 6]]" "[[0, 2]]"] toy_preprocessing(1)
  have "refit_on_test toy_library [[5, 6]] = Inr [[0, 2]]"
    by blast
  moreover have "fit_transform toy_library 4 [[5, 6]] \<noteq> fit_transform toy_library 5 [[5, 6]]"
    by (simp add: toy_library_def first_entry_def)
  ultimately show ?thesis
    using toy_refits toy_preprocessing by simp
qed

lemma blocks_no_imputer:
  "all_calls (\<lambda>c. c \<noteq> C_Imputer) (define_sampler lib)"
  "all_calls (\<lambda>c. c \<noteq> C_Imputer) (print_sizes X_train X_test :: ('o, unit) run)"
  "all_calls (\<lambda>c. c \<noteq> C_Imputer) (preprocessing_without_imputer lib X_train X_test)"
  "all_calls (\<lambda>c. c \<noteq> C_Imputer) (adaboost lib X_train y_train X_test y_test)"
  "all_calls (\<lambda>c. c \<noteq> C_Imputer) (decision_tree lib X_train y_train X_test y_test)"
  "all_calls (\<lambda>c. c \<noteq> C_Imputer) (random_forest lib X_train y_train X_test y_test)"
  "all_calls (\<lambda>c. c \<noteq> C_Imputer) (qboost lib emb_sampler lmd X_train y_train X_test y_test)"
  "all_calls (\<lambda>c. c \<noteq> C_Imputer)
     (qboost_plus lib emb_sampler lmd clf1 clf2 clf3 clf4 X_train y_train X_test y_test)"
  "all_calls (\<lambda>c. c \<noteq> C_Imputer)
     (comparison_table lib y_train y_test y_train1 y_test1 y_train2 y_test2
        y_train3 y_test3 y_train4 y_test4 y_train5 y_test5)"
  unfolding block_defs preprocessing_without_imputer_def call_defs Let_def
  by (auto intro!: all_calls_steps split: prod.splits)

lemma agree_on_bnd:
  assumes "agree_on Q m m'" "\<And>a. agree_on Q (f a) (f' a)"
  shows "agree_on Q (bnd m f) (bnd m' f')"
proof (cases "snd m")
  case (Inl e)
  moreover from Inl assms(1) have "snd m' = Inl e" by (simp add: agree_on_def)
  ultimately show ?thesis
    using assms(1) by (simp add: agree_on_def bnd_Inl_simps)
next
  case (Inr a)
  moreover from Inr assms(1) have "snd m' = Inr a" by (simp add: agree_on_def)
  ultimately show ?thesis
    using assms(1) assms(2)[of a] by (simp add: agree_on_def bnd_Inr_simps)
qed

lemma agree_on_same: "all_calls Q m \<Longrightarrow> agree_on Q m m"
  by (simp add: agree_on_def filter_all_calls)

lemma preprocessing_data_without:
  assumes "Imputer lib = Inr imp"
  shows "snd (preprocessing_data lib X_train X_test)
           = snd (preprocessing_without_imputer lib X_train X_test)"
    "filter (\<lambda>c. c \<noteq> C_Imputer) (calls (preprocessing_data lib X_train X_test))
           = calls (preprocessing_without_imputer lib X_train X_test)"
    "calls (preprocessing_data lib X_train X_test)
           = C_Imputer # calls (preprocessing_without_imputer lib X_train X_test)"
proof -
  have eq: "preprocessing_data lib X_train X_test
        = bnd (call_Imputer lib) (\<lambda>imputer. preprocessing_without_imputer lib X_train X_test)"
    by (simp add: preprocessing_data_def preprocessing_without_imputer_def)
  have s: "snd (call_Imputer lib) = Inr imp"
    using assms by (simp add: call_Imputer_def run_simps)
  show "snd (preprocessing_data lib X_train X_test)
           = snd (preprocessing_without_imputer lib X_train X_test)"
    unfolding eq by (simp add: bnd_Inr_simps[OF s])
  show c: "calls (preprocessing_data lib X_train X_test)
           = C_Imputer # calls (preprocessing_without_imputer lib X_train X_test)"
    unfolding eq call_Imputer_def by (simp add: calls_bnd_call[OF assms])
  show "filter (\<lambda>c. c \<noteq> C_Imputer) (calls (preprocessing_data lib X_train X_test))
           = calls (preprocessing_without_imputer lib X_train X_test)"
    unfolding c using filter_all_calls(1)[OF blocks_no_imputer(3)[of lib X_train X_test]]
    by simp
qed

text \<open>
  C10. The imputer that \<open>train_model\<close> constructs is used by no later statement. When
  its construction succeeds, \<open>train_model\<close> has the outcome of the function without
  that line, and makes the same calls with the same arguments, the construction of the
  imputer apart: the preprocessing is the scaler followed by the normalizer.
\<close>

theorem imputer_is_never_applied:
  assumes "Imputer lib = Inr imp"
  shows "snd (train_model lib X_train y_train X_test y_test lmd)
           = snd (train_model_without_imputer lib X_train y_train X_test y_test lmd)
       \<and> filter (\<lambda>c. c \<noteq> C_Imputer) (calls (train_model lib X_train y_train X_test y_test lmd))
           = calls (train_model_without_imputer lib X_train y_train X_test y_test lmd)"
proof -
  have p: "agree_on (\<lambda>c. c \<noteq> C_Imputer) (preprocessing_data lib X_train X_test)
             (preprocessing_without_imputer lib X_train X_test)"
    using preprocessing_data_without(1,2)[OF assms] by (simp add: agree_on_def)
  have "agree_on (\<lambda>c. c \<noteq> C_Imputer) (train_model lib X_train y_train X_test y_test lmd)
          (train_model_without_imputer lib X_train y_train X_test y_test lmd)"
    unfolding train_model_def train_model_without_imputer_def
    by (auto intro!: agree_on_bnd p agree_on_same all_calls_bnd all_calls_ret
        blocks_no_imputer split: prod.splits)
  then show ?thesis
    by (simp add: agree_on_def)
qed

lemma toy_run_without:
  "snd (train_model_without_imputer toy_library [[1, 2], [3, 4]] [1, - 1] [[5, 6]] [1] 1)
     = Inr [101, 201, 301, 401, 501]"
  by (simp add: train_model_without_imputer_def preprocessing_without_imputer_def block_defs
      call_defs bnd_def lib_call_def print_def ret_def toy_library_def first_entry_def)

theorem imputer_is_never_applied_witness:
  "Imputer toy_library = Inr 3
   \<and> snd (train_model toy_library [[1, 2], [3, 4]] [1, - 1] [[5, 6]] [1] 1)
       = Inr [101, 201, 301, 401, 501]
   \<and> snd (train_model_without_imputer toy_library [[1, 2], [3, 4]] [1, - 1] [[5, 6]] [1] 1)
       = Inr [101, 201, 301, 401, 501]
   \<and> filter (\<lambda>c. c \<noteq> C_Imputer)
       (calls (train_model toy_library [[1, 2], [3, 4]] [1, - 1] [[5, 6]] [1] 1))
       = calls (train_model_without_imputer toy_library [[1, 2], [3, 4]] [1, - 1] [[5, 6]] [1] 1)"
proof -
  have i: "Imputer toy_library = Inr 3"
    by (simp add: toy_library_def)
  from imputer_is_never_applied[OF i, of "[[1, 2], [3, 4]]" "[1, - 1]" "[[5, 6]]" "[1]" 1]
    i toy_run toy_run_without
  show ?thesis by simp
qed

end
